theory Spec2Isabelle
  imports Main "HOL-Library.Word" "HOL-Library.Log_Nat"
begin

section \<open>The station registry (station.go)\<close>

text \<open>
  \<^verbatim>\<open>StationID\<close> is \<^verbatim>\<open>[3]rune\<close> and \<^verbatim>\<open>StationName\<close> is a string. A rune is an
  \<^verbatim>\<open>int32\<close>; the array of three runes is a triple.
\<close>

type_synonym rune = "32 word"
type_synonym StationID = "rune \<times> rune \<times> rune"
type_synonym StationName = string

definition rune :: "char \<Rightarrow> rune" where
  "rune c = of_char c"

definition StationBondville :: StationName where "StationBondville = ''Bondville''"
definition StationFortPeck :: StationName where "StationFortPeck = ''Fort Peck''"
definition StationGoodwinCreek :: StationName where "StationGoodwinCreek = ''Goodwin Creek''"
definition StationTableMountain :: StationName where "StationTableMountain = ''Table Mountain''"
definition StationDesertRock :: StationName where "StationDesertRock = ''Desert Rock''"
definition StationPennState :: StationName where "StationPennState = ''Penn State''"
definition StationSiouxFalls :: StationName where "StationSiouxFalls = ''Sioux Falls''"

definition StationIDBondville :: StationID where
  "StationIDBondville = (rune CHR ''b'', rune CHR ''o'', rune CHR ''n'')"
definition StationIDFortPeck :: StationID where
  "StationIDFortPeck = (rune CHR ''f'', rune CHR ''p'', rune CHR ''k'')"
definition StationIDGoodwinCreek :: StationID where
  "StationIDGoodwinCreek = (rune CHR ''g'', rune CHR ''w'', rune CHR ''n'')"
definition StationIDTableMountain :: StationID where
  "StationIDTableMountain = (rune CHR ''t'', rune CHR ''b'', rune CHR ''l'')"
definition StationIDDesertRock :: StationID where
  "StationIDDesertRock = (rune CHR ''d'', rune CHR ''r'', rune CHR ''a'')"
definition StationIDPennState :: StationID where
  "StationIDPennState = (rune CHR ''p'', rune CHR ''s'', rune CHR ''u'')"
definition StationIDSiouxFalls :: StationID where
  "StationIDSiouxFalls = (rune CHR ''s'', rune CHR ''x'', rune CHR ''f'')"

text \<open>The two Go maps, as association lists read with \<open>map_of\<close> (the keys are distinct).\<close>

definition StationIDToName_entries :: "(StationID \<times> StationName) list" where
  "StationIDToName_entries =
     [(StationIDBondville, StationBondville),
      (StationIDFortPeck, StationFortPeck),
      (StationIDGoodwinCreek, StationGoodwinCreek),
      (StationIDTableMountain, StationTableMountain),
      (StationIDDesertRock, StationDesertRock),
      (StationIDPennState, StationPennState),
      (StationIDSiouxFalls, StationSiouxFalls)]"

definition NameToStationID_entries :: "(StationName \<times> StationID) list" where
  "NameToStationID_entries =
     [(StationBondville, StationIDBondville),
      (StationFortPeck, StationIDFortPeck),
      (StationGoodwinCreek, StationIDGoodwinCreek),
      (StationTableMountain, StationIDTableMountain),
      (StationDesertRock, StationIDDesertRock),
      (StationPennState, StationIDPennState),
      (StationSiouxFalls, StationIDSiouxFalls)]"

definition StationIDToName :: "StationID \<rightharpoonup> StationName" where
  "StationIDToName = map_of StationIDToName_entries"

definition NameToStationID :: "StationName \<rightharpoonup> StationID" where
  "NameToStationID = map_of NameToStationID_entries"

definition ValidateStationID :: "StationID \<Rightarrow> bool" where
  "ValidateStationID sid = (case StationIDToName sid of Some _ \<Rightarrow> True | None \<Rightarrow> False)"

definition ValidateStationName :: "StationName \<Rightarrow> bool" where
  "ValidateStationName sn = (case NameToStationID sn of Some _ \<Rightarrow> True | None \<Rightarrow> False)"

text \<open>
  A lookup of a missing key gives the zero value of the value type and \<^verbatim>\<open>false\<close>:
  the zero \<^verbatim>\<open>StationID\<close> is three zero runes, the zero \<^verbatim>\<open>StationName\<close> the empty string.
\<close>

definition GetStationID :: "StationName \<Rightarrow> StationID \<times> bool" where
  "GetStationID sn = (case NameToStationID sn of Some sid \<Rightarrow> (sid, True) | None \<Rightarrow> ((0, 0, 0), False))"

definition GetStationName :: "StationID \<Rightarrow> StationName \<times> bool" where
  "GetStationName sid = (case StationIDToName sid of Some sn \<Rightarrow> (sn, True) | None \<Rightarrow> ('''', False))"

section \<open>Values of the Go library\<close>

text \<open>
  A \<^verbatim>\<open>float64\<close> is its IEEE-754 bit pattern (\<^verbatim>\<open>math.Float64bits\<close>). The program never
  computes with floats: it stores what \<^verbatim>\<open>strconv.ParseFloat\<close> returns, compares with the
  constant \<^verbatim>\<open>-9999.9\<close> and stores zero. The constant \<^verbatim>\<open>-9999.9\<close> is the pattern
  \<^verbatim>\<open>0xC0C387F333333333\<close>; it is finite and not zero, so Go's \<^verbatim>\<open>==\<close> against it holds
  exactly for this one pattern (no NaN and no signed zero is involved).
\<close>

datatype float64 = Float64 (bits: "64 word")

definition float64_zero :: float64 where
  "float64_zero = Float64 0"

definition sentinel_Float64 :: float64 where
  "sentinel_Float64 = Float64 0xC0C387F333333333"

definition sentinel_Int :: int where
  "sentinel_Int = - 9999"

text \<open>
  A \<^verbatim>\<open>time.Time\<close>: the seconds since January 1 of year 1, 00:00:00 UTC, the
  nanoseconds within the second, and the location, a pointer that is nil for UTC
  (\<^verbatim>\<open>time.Date\<close> with \<^verbatim>\<open>time.UTC\<close> stores nil). A \<^verbatim>\<open>time.Location\<close> other than UTC is a name
  with an offset, as far as this program can tell two apart. The zero \<^verbatim>\<open>time.Time{}\<close> is
  the instant 0 with the nil location; \<^verbatim>\<open>IsZero\<close> looks at the instant only. (The
  monotonic clock reading, which a time at the instant 0 cannot hold, is left out.)
\<close>

datatype time_Location = time_Location (zoneName: string) (zoneOffset: int)

datatype Time = Time (sec: int) (nsec: int) (loc: "time_Location option")

definition Time_zero :: Time where
  "Time_zero = Time 0 0 None"

definition IsZero :: "Time \<Rightarrow> bool" where
  "IsZero t = (sec t = 0 \<and> nsec t = 0)"

text \<open>
  Errors. Every \<^verbatim>\<open>fmt.Errorf\<close> of the source is a constructor that carries the values the
  message is formatted from; \<^verbatim>\<open>errors.Join\<close> is \<open>Joined\<close>; the errors of \<^verbatim>\<open>strconv\<close>
  (\<open>ErrSyntax\<close> and \<open>ErrRange\<close>, with the function and the input) and of the reader behind
  the scanner (\<open>EOF\<close>, \<open>ReadError\<close>) are values of the library.
\<close>

datatype error =
    EOF
  | ReadError string
  | ErrSyntax string string
  | ErrRange string string
  | InvalidStationName StationName
  | InvalidHeaderLength "string list"
  | ErrorParsingLatitude error
  | ErrorParsingLongitude error
  | ErrorParsingElevation error
  | ErrorParsingVersion error
  | IncompleteRecordOnLine int
  | IncompleteTimestamp "string list"
  | IncompleteRecord "string list"
  | Joined "error list"

text \<open>\<^verbatim>\<open>errors.Join(errs...)\<close> where no element of \<open>errs\<close> is nil: nil for the empty list.\<close>

definition Join :: "error list \<Rightarrow> error option" where
  "Join errs = (if errs = [] then None else Some (Joined errs))"

text \<open>\<^verbatim>\<open>errors.Is(err, io.EOF)\<close>: the error itself, or one that a joined error unwraps to.\<close>

fun errors_Is_EOF :: "error \<Rightarrow> bool" where
  "errors_Is_EOF EOF = True"
| "errors_Is_EOF (Joined es) = list_ex errors_Is_EOF es"
| "errors_Is_EOF _ = False"

text \<open>
  The functions of the Go standard library that the program calls are parameters of the
  model: every function below takes the library \<open>L\<close>, and the theorems hold for every
  library. \<open>Atoi\<close> and \<open>ParseFloat\<close> return the value together with the error, as in Go
  (the value is assigned even when the error is not nil); \<open>Date y m d h mi s ns\<close> is
  \<^verbatim>\<open>time.Date(y, m, d, h, mi, s, ns, time.UTC)\<close>.
\<close>

record lib =
  Atoi :: "string \<Rightarrow> int \<times> error option"
  ParseFloat :: "string \<Rightarrow> float64 \<times> error option"
  Fields :: "string \<Rightarrow> string list"
  TrimSpace :: "string \<Rightarrow> string"
  Date :: "int \<Rightarrow> int \<Rightarrow> int \<Rightarrow> int \<Rightarrow> int \<Rightarrow> int \<Rightarrow> int \<Rightarrow> Time"

text \<open>
  A \<^verbatim>\<open>bufio.Scanner\<close> is the list of the outcomes of its calls of \<^verbatim>\<open>Scan\<close> that are still
  to come: \<open>NoToken\<close> when \<^verbatim>\<open>Scan\<close> returns false, \<open>Token text err\<close> when it returns true,
  with \<^verbatim>\<open>Text()\<close> and \<^verbatim>\<open>Err()\<close> as they are after that call. After the last outcome
  \<^verbatim>\<open>Scan\<close> returns false. A stream that is read without failure is a list of
  \<open>Token line None\<close>, one for each line.
\<close>

datatype scan = NoToken | Token string "error option"

type_synonym Scanner = "scan list"

fun Scan :: "Scanner \<Rightarrow> scan \<times> Scanner" where
  "Scan [] = (NoToken, [])"
| "Scan (r # rs) = (r, rs)"

section \<open>The data model (surfrad.go)\<close>

record Location =
  Latitude :: float64
  Longitude :: float64
  Elevation :: int

record RawEntryTime =
  Year :: int
  Month :: int
  Day :: int
  JDay :: int
  Hour :: int
  Minute :: int
  Decimal :: float64

record Data =
  RawTimestamp :: RawEntryTime
  Timestamp :: Time
  SolarZenithAngle :: float64
  DownwellingSolar :: float64
  UpwellingSolar :: float64
  DirectNormalSolar :: float64
  DownwellingDiffuseSolar :: float64
  DownwellingIR :: float64
  DownwellingIRCaseTemp :: float64
  DownwellingIRDomeTemp :: float64
  UpwellingIR :: float64
  UpwellingIRCaseTemp :: float64
  UpwellingIRDomeTemp :: float64
  GlobalUVB :: float64
  PhotosyntheticallyActiveRadiation :: float64
  NetSolar :: float64
  NetIR :: float64
  TotalNetRadiation :: float64
  TemperatureC :: float64
  RelativeHumidity :: float64
  WindSpeedMetersPerSecond :: float64
  WindDirectionDegrees :: float64
  BarometricPressure :: float64

record Station =
  StationName :: StationName
  LocatedAt :: Location
  Version :: int
  Entries :: "Data list"

text \<open>The zero values that \<^verbatim>\<open>new(Data)\<close> and \<^verbatim>\<open>new(Station)\<close> allocate.\<close>

definition RawEntryTime_zero :: RawEntryTime where
  "RawEntryTime_zero =
     \<lparr>Year = 0, Month = 0, Day = 0, JDay = 0, Hour = 0, Minute = 0, Decimal = float64_zero\<rparr>"

definition Data_zero :: Data where
  "Data_zero =
    \<lparr>RawTimestamp = RawEntryTime_zero,
     Timestamp = Time_zero,
     SolarZenithAngle = float64_zero,
     DownwellingSolar = float64_zero,
     UpwellingSolar = float64_zero,
     DirectNormalSolar = float64_zero,
     DownwellingDiffuseSolar = float64_zero,
     DownwellingIR = float64_zero,
     DownwellingIRCaseTemp = float64_zero,
     DownwellingIRDomeTemp = float64_zero,
     UpwellingIR = float64_zero,
     UpwellingIRCaseTemp = float64_zero,
     UpwellingIRDomeTemp = float64_zero,
     GlobalUVB = float64_zero,
     PhotosyntheticallyActiveRadiation = float64_zero,
     NetSolar = float64_zero,
     NetIR = float64_zero,
     TotalNetRadiation = float64_zero,
     TemperatureC = float64_zero,
     RelativeHumidity = float64_zero,
     WindSpeedMetersPerSecond = float64_zero,
     WindDirectionDegrees = float64_zero,
     BarometricPressure = float64_zero\<rparr>"

definition Station_zero :: Station where
  "Station_zero =
    \<lparr>StationName = '''',
     LocatedAt = \<lparr>Latitude = float64_zero, Longitude = float64_zero, Elevation = 0\<rparr>,
     Version = 0,
     Entries = []\<rparr>"

section \<open>The sentinel normalizer\<close>

text \<open>
  \<^verbatim>\<open>OmitInvalidOrMissing\<close> runs over the \<^verbatim>\<open>NumField()\<close> flds of \<^verbatim>\<open>Data\<close> itself, in
  the order of declaration, and applies three tests to each:
  \<^item> kind \<^verbatim>\<open>Float64\<close> and value \<^verbatim>\<open>-9999.9\<close>: set to zero (\<open>omit_Float64\<close>);
  \<^item> kind \<^verbatim>\<open>Int\<close> and value \<^verbatim>\<open>-9999\<close>: set to zero (no field of \<^verbatim>\<open>Data\<close> has this
    kind, so the test never succeeds);
  \<^item> kind \<^verbatim>\<open>Struct\<close> (the kind of \<^verbatim>\<open>time.Time\<close>) and dynamic type \<^verbatim>\<open>time.Time\<close>:
    a time for which \<^verbatim>\<open>IsZero\<close> holds is set to \<^verbatim>\<open>time.Time{}\<close>, which drops its
    location (\<open>omit_Time\<close>).

  The flds of \<^verbatim>\<open>Data\<close> are \<^verbatim>\<open>RawTimestamp\<close> (kind \<^verbatim>\<open>Struct\<close>, type
  \<^verbatim>\<open>RawEntryTime\<close>, which no case of the type switch matches: \<open>omit_RawEntryTime\<close>),
  \<^verbatim>\<open>Timestamp\<close> (a \<^verbatim>\<open>time.Time\<close>) and the 21 measurements (kind \<^verbatim>\<open>Float64\<close>). The loop
  does not descend into \<^verbatim>\<open>RawTimestamp\<close>.
\<close>

definition omit_Float64 :: "float64 \<Rightarrow> float64" where
  "omit_Float64 x = (if x = sentinel_Float64 then float64_zero else x)"

definition omit_Time :: "Time \<Rightarrow> Time" where
  "omit_Time t = (if IsZero t then Time_zero else t)"

definition omit_RawEntryTime :: "RawEntryTime \<Rightarrow> RawEntryTime" where
  "omit_RawEntryTime r = r"

definition OmitInvalidOrMissing :: "Data \<Rightarrow> Data" where
  "OmitInvalidOrMissing d =
    d\<lparr>RawTimestamp := omit_RawEntryTime (RawTimestamp d),
     Timestamp := omit_Time (Timestamp d),
     SolarZenithAngle := omit_Float64 (SolarZenithAngle d),
     DownwellingSolar := omit_Float64 (DownwellingSolar d),
     UpwellingSolar := omit_Float64 (UpwellingSolar d),
     DirectNormalSolar := omit_Float64 (DirectNormalSolar d),
     DownwellingDiffuseSolar := omit_Float64 (DownwellingDiffuseSolar d),
     DownwellingIR := omit_Float64 (DownwellingIR d),
     DownwellingIRCaseTemp := omit_Float64 (DownwellingIRCaseTemp d),
     DownwellingIRDomeTemp := omit_Float64 (DownwellingIRDomeTemp d),
     UpwellingIR := omit_Float64 (UpwellingIR d),
     UpwellingIRCaseTemp := omit_Float64 (UpwellingIRCaseTemp d),
     UpwellingIRDomeTemp := omit_Float64 (UpwellingIRDomeTemp d),
     GlobalUVB := omit_Float64 (GlobalUVB d),
     PhotosyntheticallyActiveRadiation := omit_Float64 (PhotosyntheticallyActiveRadiation d),
     NetSolar := omit_Float64 (NetSolar d),
     NetIR := omit_Float64 (NetIR d),
     TotalNetRadiation := omit_Float64 (TotalNetRadiation d),
     TemperatureC := omit_Float64 (TemperatureC d),
     RelativeHumidity := omit_Float64 (RelativeHumidity d),
     WindSpeedMetersPerSecond := omit_Float64 (WindSpeedMetersPerSecond d),
     WindDirectionDegrees := omit_Float64 (WindDirectionDegrees d),
     BarometricPressure := omit_Float64 (BarometricPressure d)\<rparr>"

section \<open>The line decoder\<close>

definition parseFloat :: "lib \<Rightarrow> string \<Rightarrow> float64" where
  "parseFloat L s = (case ParseFloat L s of (v, None) \<Rightarrow> v | (v, Some err) \<Rightarrow> float64_zero)"

text \<open>
  \<^verbatim>\<open>ParseTimestamp\<close> writes into the entry it is called on and returns the error; the model
  returns the entry as written, with the error. Each \<^verbatim>\<open>strconv.Atoi\<close> stores its value
  before the error is looked at. (The parameter \<^verbatim>\<open>fields\<close> of the source is \<open>flds\<close> here
  and below: \<open>fields\<close> is a name of the record package.)
\<close>

definition ParseTimestamp :: "lib \<Rightarrow> Data \<Rightarrow> string list \<Rightarrow> Data \<times> error option" where
  "ParseTimestamp L d flds =
    (if length flds < 7 then (d, Some (IncompleteTimestamp flds))
     else
      let (v, err) = Atoi L (flds ! 0);
          d = d\<lparr>RawTimestamp := (RawTimestamp d)\<lparr>Year := v\<rparr>\<rparr>
      in if err \<noteq> None then (d, err) else
      let (v, err) = Atoi L (flds ! 1);
          d = d\<lparr>RawTimestamp := (RawTimestamp d)\<lparr>JDay := v\<rparr>\<rparr>
      in if err \<noteq> None then (d, err) else
      let (v, err) = Atoi L (flds ! 2);
          d = d\<lparr>RawTimestamp := (RawTimestamp d)\<lparr>Month := v\<rparr>\<rparr>
      in if err \<noteq> None then (d, err) else
      let (v, err) = Atoi L (flds ! 3);
          d = d\<lparr>RawTimestamp := (RawTimestamp d)\<lparr>Day := v\<rparr>\<rparr>
      in if err \<noteq> None then (d, err) else
      let (v, err) = Atoi L (flds ! 4);
          d = d\<lparr>RawTimestamp := (RawTimestamp d)\<lparr>Hour := v\<rparr>\<rparr>
      in if err \<noteq> None then (d, err) else
      let (v, err) = Atoi L (flds ! 5);
          d = d\<lparr>RawTimestamp := (RawTimestamp d)\<lparr>Minute := v\<rparr>\<rparr>
      in if err \<noteq> None then (d, err) else
      let d = d\<lparr>RawTimestamp := (RawTimestamp d)\<lparr>Decimal := parseFloat L (flds ! 6)\<rparr>\<rparr>;
          d = d\<lparr>Timestamp :=
                 Date L (Year (RawTimestamp d)) (Month (RawTimestamp d)) (Day (RawTimestamp d))
                   (Hour (RawTimestamp d)) (Minute (RawTimestamp d)) 0 0\<rparr>
      in (d, err))"

text \<open>
  The \<^verbatim>\<open>switch\<close> of \<^verbatim>\<open>ParseLine\<close> at index \<open>i\<close> with token \<open>field\<close>; the cases 9, 11, ..., 47
  and \<^verbatim>\<open>default\<close> are empty.
\<close>

definition ParseLine_switch :: "lib \<Rightarrow> nat \<Rightarrow> string \<Rightarrow> Data \<Rightarrow> Data" where
  "ParseLine_switch L i field data =
     (if i = 7 then data\<lparr>SolarZenithAngle := parseFloat L field\<rparr>
      else if i = 8 then data\<lparr>DownwellingSolar := parseFloat L field\<rparr>
      else if i = 10 then data\<lparr>UpwellingSolar := parseFloat L field\<rparr>
      else if i = 12 then data\<lparr>DirectNormalSolar := parseFloat L field\<rparr>
      else if i = 14 then data\<lparr>DownwellingDiffuseSolar := parseFloat L field\<rparr>
      else if i = 16 then data\<lparr>DownwellingIR := parseFloat L field\<rparr>
      else if i = 18 then data\<lparr>DownwellingIRCaseTemp := parseFloat L field\<rparr>
      else if i = 20 then data\<lparr>DownwellingIRDomeTemp := parseFloat L field\<rparr>
      else if i = 22 then data\<lparr>UpwellingIR := parseFloat L field\<rparr>
      else if i = 24 then data\<lparr>UpwellingIRCaseTemp := parseFloat L field\<rparr>
      else if i = 26 then data\<lparr>UpwellingIRDomeTemp := parseFloat L field\<rparr>
      else if i = 28 then data\<lparr>GlobalUVB := parseFloat L field\<rparr>
      else if i = 30 then data\<lparr>PhotosyntheticallyActiveRadiation := parseFloat L field\<rparr>
      else if i = 32 then data\<lparr>NetSolar := parseFloat L field\<rparr>
      else if i = 34 then data\<lparr>NetIR := parseFloat L field\<rparr>
      else if i = 36 then data\<lparr>TotalNetRadiation := parseFloat L field\<rparr>
      else if i = 38 then data\<lparr>TemperatureC := parseFloat L field\<rparr>
      else if i = 40 then data\<lparr>RelativeHumidity := parseFloat L field\<rparr>
      else if i = 42 then data\<lparr>WindSpeedMetersPerSecond := parseFloat L field\<rparr>
      else if i = 44 then data\<lparr>WindDirectionDegrees := parseFloat L field\<rparr>
      else if i = 46 then data\<lparr>BarometricPressure := parseFloat L field\<rparr>
      else data)"

text \<open>\<^verbatim>\<open>for i, field := range fields\<close>, from index \<open>i\<close> on.\<close>

fun ParseLine_range :: "lib \<Rightarrow> nat \<Rightarrow> string list \<Rightarrow> Data \<Rightarrow> Data" where
  "ParseLine_range L i [] data = data"
| "ParseLine_range L i (field # flds) data =
     ParseLine_range L (Suc i) flds (ParseLine_switch L i field data)"

definition ParseLine :: "lib \<Rightarrow> string list \<Rightarrow> Data \<times> error option" where
  "ParseLine L flds =
    (let (data, err) = ParseTimestamp L Data_zero flds
     in if err \<noteq> None then (data, err) else
     let data = ParseLine_range L 0 flds data;
         err = (if length flds < 47 then Some (IncompleteRecord flds) else err);
         data = OmitInvalidOrMissing data
     in (data, err))"

section \<open>The stream reader\<close>

text \<open>
  \<^verbatim>\<open>ParseHeader\<close> writes into the station and returns an error and a flag; the model
  returns the station as written, the error and the flag.
\<close>

definition ParseHeader :: "lib \<Rightarrow> Station \<Rightarrow> string list \<Rightarrow> Station \<times> error option \<times> bool" where
  "ParseHeader L s headerInfo =
    (let errs = (if length headerInfo < 6 then [InvalidHeaderLength headerInfo] else [])
     in if length headerInfo = 0 then (s, Join errs, False) else
     let (v, err) = ParseFloat L (headerInfo ! 0);
         s = s\<lparr>LocatedAt := (LocatedAt s)\<lparr>Latitude := v\<rparr>\<rparr>;
         errs = (case err of Some e \<Rightarrow> errs @ [ErrorParsingLatitude e] | None \<Rightarrow> errs)
     in if length headerInfo = 1 then (s, Join errs, False) else
     let (v, err) = ParseFloat L (headerInfo ! 1);
         s = s\<lparr>LocatedAt := (LocatedAt s)\<lparr>Longitude := v\<rparr>\<rparr>;
         errs = (case err of Some e \<Rightarrow> errs @ [ErrorParsingLongitude e] | None \<Rightarrow> errs)
     in if length headerInfo = 2 then (s, Join errs, False) else
     let (v, err) = Atoi L (headerInfo ! 2);
         s = s\<lparr>LocatedAt := (LocatedAt s)\<lparr>Elevation := v\<rparr>\<rparr>;
         errs = (case err of Some e \<Rightarrow> errs @ [ErrorParsingElevation e] | None \<Rightarrow> errs)
     in if length headerInfo < 6 then (s, Join errs, False) else
     let (v, err) = Atoi L (headerInfo ! 5);
         s = s\<lparr>Version := v\<rparr>;
         errs = (case err of Some e \<Rightarrow> errs @ [ErrorParsingVersion e] | None \<Rightarrow> errs)
     in (s, Join errs, True))"

definition Len :: "Station \<Rightarrow> nat" where
  "Len s = length (Entries s)"

text \<open>
  The test at the head of the loop body of \<^verbatim>\<open>ReadData\<close>:
  \<^verbatim>\<open>err := scanner.Err(); err != nil && !errors.Is(err, io.EOF)\<close>, giving the error that
  makes the reader return.
\<close>

definition scanner_failed :: "error option \<Rightarrow> error option" where
  "scanner_failed e =
     (case e of Some err \<Rightarrow> (if errors_Is_EOF err then None else Some err) | None \<Rightarrow> None)"

text \<open>
  The rest of the loop body, for the line \<open>line\<close> with \<^verbatim>\<open>lineNo\<close> already incremented: the
  station and the errors as they are when the body ends (at a \<^verbatim>\<open>continue\<close> or at its end).
\<close>

definition ReadData_line :: "lib \<Rightarrow> string \<Rightarrow> Station \<Rightarrow> error list \<Rightarrow> int \<Rightarrow> Station \<times> error list" where
  "ReadData_line L line station errs lineNo =
    (let flds = Fields L line
     in if length flds < 29
        then (station, errs @ [IncompleteRecordOnLine lineNo])
        else
          let (record, err) = ParseLine L flds
          in case err of
               Some err' \<Rightarrow> (station, errs @ [err'])
             | None \<Rightarrow> (station\<lparr>Entries := Entries station @ [record]\<rparr>, errs))"

text \<open>
  The \<^verbatim>\<open>for scanner.Scan()\<close> loop, on the outcomes of \<^verbatim>\<open>Scan\<close> still to come, with the
  station, the errors and \<^verbatim>\<open>lineNo\<close> as they are on entry. It returns the station and the
  errors at the \<^verbatim>\<open>return\<close> it reaches: the one inside the loop or the one after it.
\<close>

fun ReadData_loop :: "lib \<Rightarrow> Scanner \<Rightarrow> Station \<Rightarrow> error list \<Rightarrow> int \<Rightarrow> Station \<times> error list" where
  "ReadData_loop L [] station errs lineNo = (station, errs)"
| "ReadData_loop L (NoToken # rs) station errs lineNo = (station, errs)"
| "ReadData_loop L (Token line e # rs) station errs lineNo =
    (case scanner_failed e of
       Some err \<Rightarrow> (station, errs @ [err])
     | None \<Rightarrow>
        (case ReadData_line L line station errs (lineNo + 1) of
           (station', errs') \<Rightarrow> ReadData_loop L rs station' errs' (lineNo + 1)))"

definition ReadData :: "lib \<Rightarrow> Scanner \<Rightarrow> Station \<times> error option" where
  "ReadData L scanner =
    (let station = Station_zero;
         errs = [];
         (r, scanner) = Scan scanner;
         (station, errs) =
           (case r of
              Token text e \<Rightarrow>
                (let station = station\<lparr>StationName := TrimSpace L text\<rparr>
                 in (station,
                     if \<not> ValidateStationName (StationName station)
                     then errs @ [InvalidStationName (StationName station)] else errs))
            | NoToken \<Rightarrow> (station, errs));
         (r, scanner) = Scan scanner
     in case r of
          Token text e \<Rightarrow>
            (let (station, err, ok) = ParseHeader L station (Fields L text);
                 errs = (case err of Some err' \<Rightarrow> errs @ [err'] | None \<Rightarrow> errs)
             in if \<not> ok then (station, Join errs)
                else (let (station, errs) = ReadData_loop L scanner station errs 0
                      in (station, Join errs)))
        | NoToken \<Rightarrow>
            (let (station, errs) = ReadData_loop L scanner station errs 0
             in (station, Join errs)))"

section \<open>An instance of the library\<close>

text \<open>
  The theorems below hold for every library. To evaluate the reader on concrete files,
  \<open>golib other\<close> is a library that does what Go's does on the inputs modelled here, and
  what the library \<open>other\<close> does on every other input: examples are stated for every
  \<open>other\<close>, so they rest on the modelled inputs only. These are: ASCII text for
  \<^verbatim>\<open>strings.Fields\<close> and \<^verbatim>\<open>strings.TrimSpace\<close>; every string for \<^verbatim>\<open>strconv.Atoi\<close> (with a
  64-bit \<^verbatim>\<open>int\<close>); for \<^verbatim>\<open>strconv.ParseFloat\<close> the numbers in plain decimal notation (a sign,
  digits, at most one decimal point, at most 64 characters) and the strings that no number
  can be; for \<^verbatim>\<open>time.Date\<close> the arguments below \<open>2 ^ 31\<close> in absolute value.
\<close>

definition is_ascii :: "string \<Rightarrow> bool" where
  "is_ascii s = list_all (\<lambda>c. of_char c < (128 :: nat)) s"

text \<open>\<^verbatim>\<open>strings.Fields\<close> and \<^verbatim>\<open>strings.TrimSpace\<close> on ASCII text, where white space is
  \<^verbatim>\<open>'\t'\<close>, \<^verbatim>\<open>'\n'\<close>, \<^verbatim>\<open>'\v'\<close>, \<^verbatim>\<open>'\f'\<close>, \<^verbatim>\<open>'\r'\<close> and \<^verbatim>\<open>' '\<close>.\<close>

definition asciiSpace :: "char \<Rightarrow> bool" where
  "asciiSpace c = (of_char c \<in> {9, 10, 11, 12, 13, 32 :: nat})"

fun Fields_from :: "string \<Rightarrow> string \<Rightarrow> string list" where
  "Fields_from cur [] = (if cur = [] then [] else [cur])"
| "Fields_from cur (c # cs) =
     (if asciiSpace c
      then (if cur = [] then Fields_from [] cs else cur # Fields_from [] cs)
      else Fields_from (cur @ [c]) cs)"

definition Fields_ascii :: "string \<Rightarrow> string list" where
  "Fields_ascii s = Fields_from [] s"

definition TrimSpace_ascii :: "string \<Rightarrow> string" where
  "TrimSpace_ascii s = rev (dropWhile asciiSpace (rev (dropWhile asciiSpace s)))"

text \<open>
  \<^verbatim>\<open>strconv.Atoi\<close> with a 64-bit \<^verbatim>\<open>int\<close>: an optional sign and at least one decimal digit.
  The digits are read as \<^verbatim>\<open>ParseUint\<close> reads them, which reports the overflow of 64 bits
  where it happens, before it looks at the characters that follow. A syntax error comes
  with the value 0, a range error with the nearest 64-bit integer.
\<close>

datatype digits_result = Digits int | NoDigits | TooLarge

definition digit :: "char \<Rightarrow> int option" where
  "digit c = (let n = of_char c in if 48 \<le> n \<and> n \<le> (57 :: int) then Some (n - 48) else None)"

fun ParseUint_digits :: "int \<Rightarrow> string \<Rightarrow> digits_result" where
  "ParseUint_digits n [] = Digits n"
| "ParseUint_digits n (c # cs) =
     (case digit c of
        None \<Rightarrow> NoDigits
      | Some d \<Rightarrow>
          if n \<ge> 1844674407370955162 then TooLarge
          else if n * 10 + d > 2 ^ 64 - 1 then TooLarge
          else ParseUint_digits (n * 10 + d) cs)"

definition sign_of :: "string \<Rightarrow> bool \<times> string" where
  "sign_of s =
     (case s of
        [] \<Rightarrow> (False, [])
      | c # cs \<Rightarrow> if c = CHR ''-'' then (True, cs) else if c = CHR ''+'' then (False, cs)
                  else (False, s))"

definition Atoi_int64 :: "string \<Rightarrow> int \<times> error option" where
  "Atoi_int64 s =
    (let (neg, ds) = sign_of s
     in if ds = [] then (0, Some (ErrSyntax ''Atoi'' s))
        else case ParseUint_digits 0 ds of
               NoDigits \<Rightarrow> (0, Some (ErrSyntax ''Atoi'' s))
             | TooLarge \<Rightarrow>
                 (if neg then - (2 ^ 63) else 2 ^ 63 - 1, Some (ErrRange ''Atoi'' s))
             | Digits n \<Rightarrow>
                 if \<not> neg \<and> n \<ge> 2 ^ 63 then (2 ^ 63 - 1, Some (ErrRange ''Atoi'' s))
                 else if neg \<and> n > 2 ^ 63 then (- (2 ^ 63), Some (ErrRange ''Atoi'' s))
                 else (if neg then - n else n, None))"

text \<open>
  The \<^verbatim>\<open>float64\<close> nearest to \<open>\<plusminus> n / 10 ^ k\<close> (for \<open>n \<ge> 0\<close>), ties to even, with the flag
  of overflow: what a Go constant and \<^verbatim>\<open>strconv.ParseFloat\<close> make of a decimal numeral.
  \<open>e\<close> is the binary exponent of the value, not below the exponent \<open>-1022\<close> of the
  subnormal numbers; \<open>m\<close> is the value in units of \<open>2 ^ (e - 52)\<close>, rounded. The bit
  pattern is the sign, the biased exponent \<open>e + 1023\<close> and the 52 low bits of \<open>m\<close>.
\<close>

definition round_half_even :: "int \<Rightarrow> int \<Rightarrow> int" where
  "round_half_even a b =
     (let q = a div b; r = a mod b
      in if 2 * r < b then q else if 2 * r > b then q + 1 else if even q then q else q + 1)"

definition pow2_le :: "int \<Rightarrow> int \<Rightarrow> int \<Rightarrow> bool" where
  "pow2_le e a b = (if 0 \<le> e then 2 ^ nat e * b \<le> a else b \<le> a * 2 ^ nat (- e))"

definition nearest_float64 :: "bool \<Rightarrow> int \<Rightarrow> nat \<Rightarrow> float64 \<times> bool" where
  "nearest_float64 neg n k =
    (let sign = (if neg then 2 ^ 63 else 0 :: int)
     in if n = 0 then (Float64 (of_int sign), False)
        else
          let b = 10 ^ k;
              e0 = bitlen n - bitlen b;
              e = max (if pow2_le e0 n b then e0 else e0 - 1) (- 1022);
              m = (if e \<le> 52 then round_half_even (n * 2 ^ nat (52 - e)) b
                   else round_half_even n (b * 2 ^ nat (e - 52)));
              (m, e) = (if m \<ge> 2 ^ 53 then (m div 2, e + 1) else (m, e))
          in if m < 2 ^ 52 then (Float64 (of_int (sign + m)), False)
             else if e + 1023 \<ge> 2047 then (Float64 (of_int (sign + 2047 * 2 ^ 52)), True)
             else (Float64 (of_int (sign + (e + 1023) * 2 ^ 52 + (m - 2 ^ 52))), False))"

definition float64_const :: "bool \<Rightarrow> int \<Rightarrow> nat \<Rightarrow> float64" where
  "float64_const neg n k = fst (nearest_float64 neg n k)"

text \<open>
  Plain decimal notation. \<open>decimal n k seen dot s\<close> reads digits and at most one point:
  \<open>n\<close> is the number read so far without its point, \<open>k\<close> the number of digits after the
  point, \<open>seen\<close> whether a digit was read.
\<close>

fun decimal :: "int \<Rightarrow> nat \<Rightarrow> bool \<Rightarrow> bool \<Rightarrow> string \<Rightarrow> (int \<times> nat) option" where
  "decimal n k seen dot [] = (if seen then Some (n, k) else None)"
| "decimal n k seen dot (c # cs) =
     (if c = CHR ''.'' then (if dot then None else decimal n k seen True cs)
      else case digit c of
             None \<Rightarrow> None
           | Some d \<Rightarrow> decimal (10 * n + d) (if dot then k + 1 else k) True dot cs)"

definition plain_decimal :: "string \<Rightarrow> (bool \<times> int \<times> nat) option" where
  "plain_decimal s =
     (if length s > 64 then None
      else case sign_of s of
             (neg, ds) \<Rightarrow>
               (case decimal 0 0 False False ds of
                  None \<Rightarrow> None
                | Some (n, k) \<Rightarrow> Some (neg, n, k)))"

text \<open>
  A string that no number can be: the empty one, and one with a character that no
  notation of \<^verbatim>\<open>strconv.ParseFloat\<close> has (these are the letters, the digits and
  \<^verbatim>\<open>+\<close>, \<^verbatim>\<open>-\<close>, \<^verbatim>\<open>.\<close>, \<^verbatim>\<open>_\<close>).
\<close>

definition float_char :: "char \<Rightarrow> bool" where
  "float_char c =
     (let n = of_char c :: nat
      in (48 \<le> n \<and> n \<le> 57) \<or> (65 \<le> n \<and> n \<le> 90) \<or> (97 \<le> n \<and> n \<le> 122) \<or>
         n = 43 \<or> n = 45 \<or> n = 46 \<or> n = 95)"

definition no_number :: "string \<Rightarrow> bool" where
  "no_number s = (s = [] \<or> list_ex (\<lambda>c. \<not> float_char c) s)"

text \<open>
  \<^verbatim>\<open>strconv.ParseFloat(s, 64)\<close>: the nearest \<^verbatim>\<open>float64\<close> for plain decimal notation, the
  value 0 with a syntax error for a string that no number can be, and what \<open>other\<close>
  does for the notations not modelled (an exponent, a hexadecimal number, an infinity,
  \<^verbatim>\<open>NaN\<close>, underscores, a longer numeral).
\<close>

definition ParseFloat_go :: "lib \<Rightarrow> string \<Rightarrow> float64 \<times> error option" where
  "ParseFloat_go other s =
    (case plain_decimal s of
       Some (neg, n, k) \<Rightarrow>
         (case nearest_float64 neg n k of
            (v, overflow) \<Rightarrow> (v, if overflow then Some (ErrRange ''ParseFloat'' s) else None))
     | None \<Rightarrow>
         if no_number s then (float64_zero, Some (ErrSyntax ''ParseFloat'' s))
         else ParseFloat other s)"

text \<open>
  \<^verbatim>\<open>time.Date\<close> in UTC, in the proleptic Gregorian calendar: the month is normalised into
  the year, and days, hours, minutes, seconds and nanoseconds out of their ranges carry
  over. The location of the result is nil.
\<close>

definition isLeap :: "int \<Rightarrow> bool" where
  "isLeap y = (y mod 4 = 0 \<and> (y mod 100 \<noteq> 0 \<or> y mod 400 = 0))"

definition daysBefore :: "int list" where
  "daysBefore = [0, 31, 59, 90, 120, 151, 181, 212, 243, 273, 304, 334]"

definition Date_utc :: "int \<Rightarrow> int \<Rightarrow> int \<Rightarrow> int \<Rightarrow> int \<Rightarrow> int \<Rightarrow> int \<Rightarrow> Time" where
  "Date_utc year month day hour minute second nanosecond =
    (let m = (month - 1) mod 12;
         y = year + (month - 1) div 12;
         d = 365 * (y - 1) + (y - 1) div 4 - (y - 1) div 100 + (y - 1) div 400
             + daysBefore ! nat m + (if isLeap y \<and> m \<ge> 2 then 1 else 0) + (day - 1)
     in Time (d * 86400 + hour * 3600 + minute * 60 + second + nanosecond div 1000000000)
             (nanosecond mod 1000000000) None)"

definition small :: "int \<Rightarrow> bool" where
  "small x = (- (2 ^ 31) < x \<and> x < 2 ^ 31)"

definition Date_go :: "lib \<Rightarrow> int \<Rightarrow> int \<Rightarrow> int \<Rightarrow> int \<Rightarrow> int \<Rightarrow> int \<Rightarrow> int \<Rightarrow> Time" where
  "Date_go other year month day hour minute second nanosecond =
    (if small year \<and> small month \<and> small day \<and> small hour \<and> small minute \<and> small second \<and>
        small nanosecond
     then Date_utc year month day hour minute second nanosecond
     else Date other year month day hour minute second nanosecond)"

definition golib :: "lib \<Rightarrow> lib" where
  "golib other =
     \<lparr>Atoi = Atoi_int64,
      ParseFloat = ParseFloat_go other,
      Fields = (\<lambda>s. if is_ascii s then Fields_ascii s else Fields other s),
      TrimSpace = (\<lambda>s. if is_ascii s then TrimSpace_ascii s else TrimSpace other s),
      Date = Date_go other\<rparr>"

section \<open>Notions the properties are stated with\<close>

text \<open>
  The mapped positions of a data line, each with the measurement the \<^verbatim>\<open>switch\<close> of
  \<^verbatim>\<open>ParseLine\<close> stores its token in.
\<close>

definition mapped_positions :: "(nat \<times> (Data \<Rightarrow> float64)) list" where
  "mapped_positions =
     [(7, SolarZenithAngle),
      (8, DownwellingSolar),
      (10, UpwellingSolar),
      (12, DirectNormalSolar),
      (14, DownwellingDiffuseSolar),
      (16, DownwellingIR),
      (18, DownwellingIRCaseTemp),
      (20, DownwellingIRDomeTemp),
      (22, UpwellingIR),
      (24, UpwellingIRCaseTemp),
      (26, UpwellingIRDomeTemp),
      (28, GlobalUVB),
      (30, PhotosyntheticallyActiveRadiation),
      (32, NetSolar),
      (34, NetIR),
      (36, TotalNetRadiation),
      (38, TemperatureC),
      (40, RelativeHumidity),
      (42, WindSpeedMetersPerSecond),
      (44, WindDirectionDegrees),
      (46, BarometricPressure)]"

definition measurements :: "(Data \<Rightarrow> float64) list" where
  "measurements = map snd mapped_positions"

text \<open>The positions of the quality-control flags: the empty cases 9, 11, ..., 47.\<close>

definition flag_positions :: "nat list" where
  "flag_positions = map (\<lambda>k. 2 * k + 9) [0..<20]"

text \<open>The six leading tokens are there, with a seventh, and \<^verbatim>\<open>strconv.Atoi\<close> accepts them.\<close>

definition timestamp_ok :: "lib \<Rightarrow> string list \<Rightarrow> bool" where
  "timestamp_ok L flds =
     (7 \<le> length flds \<and>
      snd (Atoi L (flds ! 0)) = None \<and> snd (Atoi L (flds ! 1)) = None \<and>
      snd (Atoi L (flds ! 2)) = None \<and> snd (Atoi L (flds ! 3)) = None \<and>
      snd (Atoi L (flds ! 4)) = None \<and> snd (Atoi L (flds ! 5)) = None)"

text \<open>The errors an aggregate (the result of \<^verbatim>\<open>errors.Join\<close>) holds.\<close>

definition errors_of :: "error option \<Rightarrow> error list" where
  "errors_of agg = (case agg of None \<Rightarrow> [] | Some (Joined es) \<Rightarrow> es | Some e \<Rightarrow> [e])"


text \<open>
  The second outcome of \<^verbatim>\<open>Scan\<close> lets the reader go on to the data lines: there is no
  header line, or \<^verbatim>\<open>ParseHeader\<close> returns \<^verbatim>\<open>true\<close> for it.
\<close>

definition header_passes :: "lib \<Rightarrow> scan \<Rightarrow> bool" where
  "header_passes L r =
     (case r of Token text e \<Rightarrow> snd (snd (ParseHeader L Station_zero (Fields L text))) | NoToken \<Rightarrow> True)"

text \<open>The data line of the test \<^verbatim>\<open>valid data line\<close>, as the specification quotes it.\<close>

definition test_line :: string where
  "test_line = ''2024 48 2 17 23 59 23.983 74.37 136.8 0 28.3 0 49.4 0 126.7 0 320.1 0 289.68 0 289.43 0 396.8 0 288.55 0 288.61 0 9.8 0 62.0 0 111.7 0 -76.7 0 35.0 0 15.1 0 29.0 0 5.1 0 106.8 0 903.6 0''"

text \<open>
  The entry \<^verbatim>\<open>ParseLine\<close> has built when its loop ends, for a line whose timestamp is
  accepted, in closed form: \<open>token_value L flds p\<close> is the measurement taken from
  position \<open>p\<close>, zero when the line has no token there (lemma \<open>ParseLine_accepted\<close>).
\<close>

definition token_value :: "lib \<Rightarrow> string list \<Rightarrow> nat \<Rightarrow> float64" where
  "token_value L flds p = (if p < length flds then parseFloat L (flds ! p) else float64_zero)"

definition decoded :: "lib \<Rightarrow> string list \<Rightarrow> Data" where
  "decoded L flds =
    \<lparr>RawTimestamp =
       \<lparr>Year = fst (Atoi L (flds ! 0)), Month = fst (Atoi L (flds ! 2)),
        Day = fst (Atoi L (flds ! 3)), JDay = fst (Atoi L (flds ! 1)),
        Hour = fst (Atoi L (flds ! 4)), Minute = fst (Atoi L (flds ! 5)),
        Decimal = parseFloat L (flds ! 6)\<rparr>,
     Timestamp =
       Date L (fst (Atoi L (flds ! 0))) (fst (Atoi L (flds ! 2))) (fst (Atoi L (flds ! 3)))
         (fst (Atoi L (flds ! 4))) (fst (Atoi L (flds ! 5))) 0 0,
     SolarZenithAngle = token_value L flds 7,
     DownwellingSolar = token_value L flds 8,
     UpwellingSolar = token_value L flds 10,
     DirectNormalSolar = token_value L flds 12,
     DownwellingDiffuseSolar = token_value L flds 14,
     DownwellingIR = token_value L flds 16,
     DownwellingIRCaseTemp = token_value L flds 18,
     DownwellingIRDomeTemp = token_value L flds 20,
     UpwellingIR = token_value L flds 22,
     UpwellingIRCaseTemp = token_value L flds 24,
     UpwellingIRDomeTemp = token_value L flds 26,
     GlobalUVB = token_value L flds 28,
     PhotosyntheticallyActiveRadiation = token_value L flds 30,
     NetSolar = token_value L flds 32,
     NetIR = token_value L flds 34,
     TotalNetRadiation = token_value L flds 36,
     TemperatureC = token_value L flds 38,
     RelativeHumidity = token_value L flds 40,
     WindSpeedMetersPerSecond = token_value L flds 42,
     WindDirectionDegrees = token_value L flds 44,
     BarometricPressure = token_value L flds 46\<rparr>"

text \<open>
  The positions \<^verbatim>\<open>ParseLine\<close> reads a token from: the seven of the timestamp and the
  mapped ones.
\<close>

definition read_positions :: "nat list" where
  "read_positions = [0..<7] @ map fst mapped_positions"

text \<open>The entry the test \<^verbatim>\<open>valid data line\<close> expects, with its constants.\<close>

definition test_entry :: Data where
  "test_entry =
    \<lparr>RawTimestamp =
       \<lparr>Year = 2024, Month = 2, Day = 17, JDay = 48, Hour = 23, Minute = 59,
        Decimal = float64_const False 23983 3\<rparr>,
     Timestamp = Date_utc 2024 2 17 23 59 0 0,
     SolarZenithAngle = float64_const False 7437 2,
     DownwellingSolar = float64_const False 1368 1,
     UpwellingSolar = float64_const False 283 1,
     DirectNormalSolar = float64_const False 494 1,
     DownwellingDiffuseSolar = float64_const False 1267 1,
     DownwellingIR = float64_const False 3201 1,
     DownwellingIRCaseTemp = float64_const False 28968 2,
     DownwellingIRDomeTemp = float64_const False 28943 2,
     UpwellingIR = float64_const False 3968 1,
     UpwellingIRCaseTemp = float64_const False 28855 2,
     UpwellingIRDomeTemp = float64_const False 28861 2,
     GlobalUVB = float64_const False 98 1,
     PhotosyntheticallyActiveRadiation = float64_const False 620 1,
     NetSolar = float64_const False 1117 1,
     NetIR = float64_const True 767 1,
     TotalNetRadiation = float64_const False 350 1,
     TemperatureC = float64_const False 151 1,
     RelativeHumidity = float64_const False 290 1,
     WindSpeedMetersPerSecond = float64_const False 51 1,
     WindDirectionDegrees = float64_const False 1068 1,
     BarometricPressure = float64_const False 9036 1\<rparr>"

text \<open>
  What one line adds when the loop of the reader takes it: the entries appended to the
  station and the errors appended to the list, for the line number \<open>k\<close> (lemma
  \<open>ReadData_line_eq\<close>); and what the loop adds over the outcomes of \<^verbatim>\<open>Scan\<close> still to
  come, entered with \<^verbatim>\<open>lineNo\<close> \<open>n\<close> (lemma \<open>ReadData_loop_eq\<close>).
\<close>

definition line_entries :: "lib \<Rightarrow> string \<Rightarrow> Data list" where
  "line_entries L line =
     (if 29 \<le> length (Fields L line) \<and> snd (ParseLine L (Fields L line)) = None
      then [fst (ParseLine L (Fields L line))] else [])"

definition line_errors :: "lib \<Rightarrow> string \<Rightarrow> int \<Rightarrow> error list" where
  "line_errors L line k =
     (if length (Fields L line) < 29 then [IncompleteRecordOnLine k]
      else case snd (ParseLine L (Fields L line)) of Some err \<Rightarrow> [err] | None \<Rightarrow> [])"

fun loop_entries :: "lib \<Rightarrow> Scanner \<Rightarrow> Data list" where
  "loop_entries L [] = []"
| "loop_entries L (NoToken # rs) = []"
| "loop_entries L (Token line e # rs) =
     (case scanner_failed e of
        Some err \<Rightarrow> []
      | None \<Rightarrow> line_entries L line @ loop_entries L rs)"

fun loop_errors :: "lib \<Rightarrow> Scanner \<Rightarrow> int \<Rightarrow> error list" where
  "loop_errors L [] n = []"
| "loop_errors L (NoToken # rs) n = []"
| "loop_errors L (Token line e # rs) n =
     (case scanner_failed e of
        Some err \<Rightarrow> [err]
      | None \<Rightarrow> line_errors L line (n + 1) @ loop_errors L rs (n + 1))"

text \<open>
  Lines for the examples: the name and the header of a file of the station Desert Rock,
  a header cut after the elevation, a data line of three tokens, the first 29 tokens of
  the test line, and the test line with a year that is no integer.
\<close>

definition test_name :: string where
  "test_name = '' Desert Rock''"

definition test_header :: string where
  "test_header = ''  36.624 -116.019 1007 m version 1''"

definition short_header :: string where
  "short_header = ''  36.624 -116.019 1007''"

definition short_line :: string where
  "short_line = ''2024 48 2''"

definition partial_line :: string where
  "partial_line = ''2024 48 2 17 23 59 23.983 74.37 136.8 0 28.3 0 49.4 0 126.7 0 320.1 0 289.68 0 289.43 0 396.8 0 288.55 0 288.61 0 9.8''"

definition test_station :: Station where
  "test_station =
    \<lparr>StationName = ''Desert Rock'',
     LocatedAt = \<lparr>Latitude = float64_const False 36624 3,
                  Longitude = float64_const True 116019 3, Elevation = 1007\<rparr>,
     Version = 1, Entries = []\<rparr>"

text \<open>The 48 tokens of the test line, and the test line with a year that is no integer.\<close>

definition test_fields :: "string list" where
  "test_fields =
     [''2024'', ''48'', ''2'', ''17'', ''23'', ''59'', ''23.983'', ''74.37'', ''136.8'',
      ''0'', ''28.3'', ''0'', ''49.4'', ''0'', ''126.7'', ''0'', ''320.1'', ''0'',
      ''289.68'', ''0'', ''289.43'', ''0'', ''396.8'', ''0'', ''288.55'', ''0'',
      ''288.61'', ''0'', ''9.8'', ''0'', ''62.0'', ''0'', ''111.7'', ''0'', ''-76.7'',
      ''0'', ''35.0'', ''0'', ''15.1'', ''0'', ''29.0'', ''0'', ''5.1'', ''0'', ''106.8'',
      ''0'', ''903.6'', ''0'']"

definition bad_year_line :: string where
  "bad_year_line = ''20x4 48 2 17 23 59 23.983 74.37 136.8 0 28.3 0 49.4 0 126.7 0 320.1 0 289.68 0 289.43 0 396.8 0 288.55 0 288.61 0 9.8 0 62.0 0 111.7 0 -76.7 0 35.0 0 15.1 0 29.0 0 5.1 0 106.8 0 903.6 0''"

section \<open>The station registry: round trips\<close>

lemmas StationName_defs =
  StationBondville_def StationFortPeck_def StationGoodwinCreek_def StationTableMountain_def
  StationDesertRock_def StationPennState_def StationSiouxFalls_def

lemmas StationID_defs =
  StationIDBondville_def StationIDFortPeck_def StationIDGoodwinCreek_def
  StationIDTableMountain_def StationIDDesertRock_def StationIDPennState_def
  StationIDSiouxFalls_def

lemma dom_StationIDToName:
  "dom StationIDToName =
     {StationIDBondville, StationIDFortPeck, StationIDGoodwinCreek, StationIDTableMountain,
      StationIDDesertRock, StationIDPennState, StationIDSiouxFalls}"
  by (auto simp: StationIDToName_def StationIDToName_entries_def dom_map_of_conv_image_fst)

lemma dom_NameToStationID:
  "dom NameToStationID =
     {StationBondville, StationFortPeck, StationGoodwinCreek, StationTableMountain,
      StationDesertRock, StationPennState, StationSiouxFalls}"
  by (auto simp: NameToStationID_def NameToStationID_entries_def dom_map_of_conv_image_fst)

lemma code_round_trip:
  assumes "c \<in> dom StationIDToName"
  shows "snd (GetStationName c) \<and> GetStationID (fst (GetStationName c)) = (c, True)"
proof -
  from assms consider "c = StationIDBondville" | "c = StationIDFortPeck"
    | "c = StationIDGoodwinCreek" | "c = StationIDTableMountain" | "c = StationIDDesertRock"
    | "c = StationIDPennState" | "c = StationIDSiouxFalls"
    unfolding dom_StationIDToName by blast
  then show ?thesis
    by cases
      (simp_all add: GetStationName_def GetStationID_def StationIDToName_def
        NameToStationID_def StationIDToName_entries_def NameToStationID_entries_def
        StationID_defs StationName_defs rune_def)
qed

lemma name_round_trip:
  assumes "n \<in> dom NameToStationID"
  shows "snd (GetStationID n) \<and> GetStationName (fst (GetStationID n)) = (n, True)"
proof -
  from assms consider "n = StationBondville" | "n = StationFortPeck"
    | "n = StationGoodwinCreek" | "n = StationTableMountain" | "n = StationDesertRock"
    | "n = StationPennState" | "n = StationSiouxFalls"
    unfolding dom_NameToStationID by blast
  then show ?thesis
    by cases
      (simp_all add: GetStationName_def GetStationID_def StationIDToName_def
        NameToStationID_def StationIDToName_entries_def NameToStationID_entries_def
        StationID_defs StationName_defs rune_def)
qed

text \<open>
  C6. The registry has seven station codes and seven station names. For every code \<open>c\<close>
  of the registry the lookup of its name is found, and the lookup of the code of that
  name is found and gives \<open>c\<close> back; for every name \<open>n\<close> of the registry the lookup of
  its code is found, and the lookup of the name of that code is found and gives \<open>n\<close> back.
\<close>

theorem registry_round_trip:
  "card (dom StationIDToName) = 7 \<and> card (dom NameToStationID) = 7 \<and>
   (\<forall>c \<in> dom StationIDToName.
      snd (GetStationName c) \<and> GetStationID (fst (GetStationName c)) = (c, True)) \<and>
   (\<forall>n \<in> dom NameToStationID.
      snd (GetStationID n) \<and> GetStationName (fst (GetStationID n)) = (n, True))"
proof -
  have "card (dom StationIDToName) = 7"
    by (simp add: dom_StationIDToName StationID_defs rune_def)
  moreover have "card (dom NameToStationID) = 7"
    by (simp add: dom_NameToStationID StationName_defs)
  ultimately show ?thesis
    using code_round_trip name_round_trip by blast
qed

theorem registry_round_trip_witness:
  "StationIDDesertRock \<in> dom StationIDToName \<and>
   GetStationName StationIDDesertRock = (''Desert Rock'', True) \<and>
   GetStationID ''Desert Rock'' = (StationIDDesertRock, True) \<and>
   ''Penn State'' \<in> dom NameToStationID \<and>
   GetStationID ''Penn State'' = (StationIDPennState, True) \<and>
   GetStationName StationIDPennState = (''Penn State'', True)"
proof -
  have c: "StationIDDesertRock \<in> dom StationIDToName"
    by (simp add: dom_StationIDToName)
  have n: "''Penn State'' \<in> dom NameToStationID"
    by (simp add: dom_NameToStationID StationName_defs)
  have "GetStationName StationIDDesertRock = (''Desert Rock'', True)"
    by (simp add: GetStationName_def StationIDToName_def StationIDToName_entries_def
        StationID_defs StationName_defs rune_def)
  moreover have "GetStationID ''Penn State'' = (StationIDPennState, True)"
    by (simp add: GetStationID_def NameToStationID_def NameToStationID_entries_def
        StationName_defs)
  ultimately show ?thesis
    using c n registry_round_trip by (metis fst_conv)
qed

section \<open>The sentinel normalizer\<close>

lemma sentinel_not_zero: "sentinel_Float64 \<noteq> float64_zero"
  by (simp add: sentinel_Float64_def float64_zero_def)

lemma omit_Float64_idem: "omit_Float64 (omit_Float64 x) = omit_Float64 x"
  by (simp add: omit_Float64_def sentinel_not_zero [symmetric])

lemma omit_Time_idem: "omit_Time (omit_Time t) = omit_Time t"
  by (simp add: omit_Time_def IsZero_def Time_zero_def)

text \<open>
  C7. The sentinel normalizer is idempotent: for every entry, normalizing twice gives the
  entry that normalizing once gives.
\<close>

theorem OmitInvalidOrMissing_idempotent:
  "OmitInvalidOrMissing (OmitInvalidOrMissing d) = OmitInvalidOrMissing d"
  by (simp add: OmitInvalidOrMissing_def omit_Float64_idem omit_Time_idem omit_RawEntryTime_def)

text \<open>
  C4, as the code has it. The normalizer looks at the fields of the entry itself: each of
  the 21 measurements that holds \<^verbatim>\<open>-9999.9\<close> holds 0 afterwards, and every other
  measurement keeps its value. The raw timestamp is a nested record: its components (the
  integers and the decimal time) are not looked at and keep their values. A calendar
  timestamp at the zero instant becomes the zero time, every other one keeps its value.
\<close>

theorem OmitInvalidOrMissing_fields:
  "(\<forall>g \<in> set measurements.
      g (OmitInvalidOrMissing d) = (if g d = sentinel_Float64 then float64_zero else g d)) \<and>
   RawTimestamp (OmitInvalidOrMissing d) = RawTimestamp d \<and>
   Timestamp (OmitInvalidOrMissing d) =
     (if IsZero (Timestamp d) then Time_zero else Timestamp d)"
  by (simp add: measurements_def mapped_positions_def OmitInvalidOrMissing_def
      omit_Float64_def omit_Time_def omit_RawEntryTime_def)

theorem OmitInvalidOrMissing_fields_witness:
  "DownwellingSolar \<in> set measurements \<and>
   DownwellingSolar (Data_zero\<lparr>DownwellingSolar := sentinel_Float64\<rparr>) = sentinel_Float64 \<and>
   DownwellingSolar (OmitInvalidOrMissing (Data_zero\<lparr>DownwellingSolar := sentinel_Float64\<rparr>))
     = float64_zero"
proof -
  have m: "DownwellingSolar \<in> set measurements"
    by (simp add: measurements_def mapped_positions_def)
  show ?thesis
    using m OmitInvalidOrMissing_fields [of "Data_zero\<lparr>DownwellingSolar := sentinel_Float64\<rparr>"]
    by auto
qed

text \<open>
  C4 as stated fails: an entry whose raw timestamp holds the year \<^verbatim>\<open>-9999\<close> and the
  decimal time \<^verbatim>\<open>-9999.9\<close> keeps both through the normalizer.
\<close>

theorem OmitInvalidOrMissing_raw_timestamp_counterexample:
  "Year (RawTimestamp (OmitInvalidOrMissing
      (Data_zero\<lparr>RawTimestamp := RawEntryTime_zero\<lparr>Year := - 9999, Decimal := sentinel_Float64\<rparr>\<rparr>)))
     = sentinel_Int \<and>
   Decimal (RawTimestamp (OmitInvalidOrMissing
      (Data_zero\<lparr>RawTimestamp := RawEntryTime_zero\<lparr>Year := - 9999, Decimal := sentinel_Float64\<rparr>\<rparr>)))
     = sentinel_Float64 \<and>
   sentinel_Int \<noteq> 0 \<and> sentinel_Float64 \<noteq> float64_zero"
  by (simp add: OmitInvalidOrMissing_def omit_RawEntryTime_def sentinel_Int_def
      sentinel_not_zero)

section \<open>The stream reader on an empty stream\<close>

text \<open>
  C10. On a stream with no line at all (every call of \<^verbatim>\<open>Scan\<close> returns false) the reader
  returns the station with the empty name, the zero location, version 0 and no entry,
  and the nil error: that the name line and the header line are absent is no error.
\<close>

theorem ReadData_empty:
  "ReadData L [] =
     (\<lparr>StationName = '''',
       LocatedAt = \<lparr>Latitude = Float64 0, Longitude = Float64 0, Elevation = 0\<rparr>,
       Version = 0, Entries = []\<rparr>, None)"
  by (simp add: ReadData_def Station_zero_def float64_zero_def Join_def)

section \<open>The line decoder in closed form\<close>

lemma ParseLine_range_get:
  assumes "\<And>i f d. g (ParseLine_switch L i f d) = (if i = p then parseFloat L f else g d)"
  shows "g (ParseLine_range L n xs d) =
           (if n \<le> p \<and> p < n + length xs then parseFloat L (xs ! (p - n)) else g d)"
proof (induction xs arbitrary: n d)
  case Nil
  then show ?case by auto
next
  case (Cons x xs)
  show ?case
  proof (cases "n = p")
    case True
    then show ?thesis by (simp add: Cons.IH assms)
  next
    case False
    then show ?thesis by (auto simp: Cons.IH assms Suc_diff_le)
  qed
qed

lemma ParseLine_range_keep:
  assumes "\<And>i f d. g (ParseLine_switch L i f d) = g d"
  shows "g (ParseLine_range L n xs d) = g d"
  by (induction xs arbitrary: n d) (simp_all add: assms)

lemma ParseLine_range_RawTimestamp:
  "RawTimestamp (ParseLine_range L n xs d) = RawTimestamp d"
  by (rule ParseLine_range_keep) (simp add: ParseLine_switch_def)

lemma ParseLine_range_Timestamp:
  "Timestamp (ParseLine_range L n xs d) = Timestamp d"
  by (rule ParseLine_range_keep) (simp add: ParseLine_switch_def)

lemma ParseLine_range_measurements:
  "SolarZenithAngle (ParseLine_range L n xs d) =
     (if n \<le> 7 \<and> 7 < n + length xs then parseFloat L (xs ! (7 - n)) else SolarZenithAngle d)"
  "DownwellingSolar (ParseLine_range L n xs d) =
     (if n \<le> 8 \<and> 8 < n + length xs then parseFloat L (xs ! (8 - n)) else DownwellingSolar d)"
  "UpwellingSolar (ParseLine_range L n xs d) =
     (if n \<le> 10 \<and> 10 < n + length xs then parseFloat L (xs ! (10 - n)) else UpwellingSolar d)"
  "DirectNormalSolar (ParseLine_range L n xs d) =
     (if n \<le> 12 \<and> 12 < n + length xs then parseFloat L (xs ! (12 - n)) else DirectNormalSolar d)"
  "DownwellingDiffuseSolar (ParseLine_range L n xs d) =
     (if n \<le> 14 \<and> 14 < n + length xs then parseFloat L (xs ! (14 - n)) else DownwellingDiffuseSolar d)"
  "DownwellingIR (ParseLine_range L n xs d) =
     (if n \<le> 16 \<and> 16 < n + length xs then parseFloat L (xs ! (16 - n)) else DownwellingIR d)"
  "DownwellingIRCaseTemp (ParseLine_range L n xs d) =
     (if n \<le> 18 \<and> 18 < n + length xs then parseFloat L (xs ! (18 - n)) else DownwellingIRCaseTemp d)"
  "DownwellingIRDomeTemp (ParseLine_range L n xs d) =
     (if n \<le> 20 \<and> 20 < n + length xs then parseFloat L (xs ! (20 - n)) else DownwellingIRDomeTemp d)"
  "UpwellingIR (ParseLine_range L n xs d) =
     (if n \<le> 22 \<and> 22 < n + length xs then parseFloat L (xs ! (22 - n)) else UpwellingIR d)"
  "UpwellingIRCaseTemp (ParseLine_range L n xs d) =
     (if n \<le> 24 \<and> 24 < n + length xs then parseFloat L (xs ! (24 - n)) else UpwellingIRCaseTemp d)"
  "UpwellingIRDomeTemp (ParseLine_range L n xs d) =
     (if n \<le> 26 \<and> 26 < n + length xs then parseFloat L (xs ! (26 - n)) else UpwellingIRDomeTemp d)"
  "GlobalUVB (ParseLine_range L n xs d) =
     (if n \<le> 28 \<and> 28 < n + length xs then parseFloat L (xs ! (28 - n)) else GlobalUVB d)"
  "PhotosyntheticallyActiveRadiation (ParseLine_range L n xs d) =
     (if n \<le> 30 \<and> 30 < n + length xs then parseFloat L (xs ! (30 - n)) else PhotosyntheticallyActiveRadiation d)"
  "NetSolar (ParseLine_range L n xs d) =
     (if n \<le> 32 \<and> 32 < n + length xs then parseFloat L (xs ! (32 - n)) else NetSolar d)"
  "NetIR (ParseLine_range L n xs d) =
     (if n \<le> 34 \<and> 34 < n + length xs then parseFloat L (xs ! (34 - n)) else NetIR d)"
  "TotalNetRadiation (ParseLine_range L n xs d) =
     (if n \<le> 36 \<and> 36 < n + length xs then parseFloat L (xs ! (36 - n)) else TotalNetRadiation d)"
  "TemperatureC (ParseLine_range L n xs d) =
     (if n \<le> 38 \<and> 38 < n + length xs then parseFloat L (xs ! (38 - n)) else TemperatureC d)"
  "RelativeHumidity (ParseLine_range L n xs d) =
     (if n \<le> 40 \<and> 40 < n + length xs then parseFloat L (xs ! (40 - n)) else RelativeHumidity d)"
  "WindSpeedMetersPerSecond (ParseLine_range L n xs d) =
     (if n \<le> 42 \<and> 42 < n + length xs then parseFloat L (xs ! (42 - n)) else WindSpeedMetersPerSecond d)"
  "WindDirectionDegrees (ParseLine_range L n xs d) =
     (if n \<le> 44 \<and> 44 < n + length xs then parseFloat L (xs ! (44 - n)) else WindDirectionDegrees d)"
  "BarometricPressure (ParseLine_range L n xs d) =
     (if n \<le> 46 \<and> 46 < n + length xs then parseFloat L (xs ! (46 - n)) else BarometricPressure d)"
  by (rule ParseLine_range_get, simp add: ParseLine_switch_def)+

lemma ParseTimestamp_cases:
  obtains (short) "length flds < 7"
  | (tokens) v0 e0 v1 e1 v2 e2 v3 e3 v4 e4 v5 e5 where "7 \<le> length flds"
      "Atoi (L :: lib) (flds ! 0) = (v0, e0)" "Atoi L (flds ! 1) = (v1, e1)"
      "Atoi L (flds ! 2) = (v2, e2)" "Atoi L (flds ! 3) = (v3, e3)"
      "Atoi L (flds ! 4) = (v4, e4)" "Atoi L (flds ! 5) = (v5, e5)"
proof (cases "length flds < 7")
  case True
  then show ?thesis by (rule short)
next
  case False
  then have "7 \<le> length flds" by simp
  then show ?thesis
    by (rule tokens) (rule surjective_pairing)+
qed

lemma ParseTimestamp_accepted:
  assumes "timestamp_ok L flds"
  shows "ParseTimestamp L d flds =
    (d\<lparr>RawTimestamp :=
         \<lparr>Year = fst (Atoi L (flds ! 0)), Month = fst (Atoi L (flds ! 2)),
          Day = fst (Atoi L (flds ! 3)), JDay = fst (Atoi L (flds ! 1)),
          Hour = fst (Atoi L (flds ! 4)), Minute = fst (Atoi L (flds ! 5)),
          Decimal = parseFloat L (flds ! 6)\<rparr>,
       Timestamp :=
         Date L (fst (Atoi L (flds ! 0))) (fst (Atoi L (flds ! 2))) (fst (Atoi L (flds ! 3)))
           (fst (Atoi L (flds ! 4))) (fst (Atoi L (flds ! 5))) 0 0\<rparr>, None)"
proof (cases rule: ParseTimestamp_cases [where flds = flds and L = L])
  case short
  with assms show ?thesis by (simp add: timestamp_ok_def)
next
  case (tokens v0 e0 v1 e1 v2 e2 v3 e3 v4 e4 v5 e5)
  with assms show ?thesis
    by (simp add: timestamp_ok_def ParseTimestamp_def Let_def)
qed

lemma ParseTimestamp_error_iff:
  "snd (ParseTimestamp L d flds) = None \<longleftrightarrow> timestamp_ok L flds"
proof (cases rule: ParseTimestamp_cases [where flds = flds and L = L])
  case short
  then show ?thesis by (simp add: timestamp_ok_def ParseTimestamp_def)
next
  case (tokens v0 e0 v1 e1 v2 e2 v3 e3 v4 e4 v5 e5)
  show ?thesis
    by (insert tokens,
        (cases e0; cases e1; cases e2; cases e3; cases e4; cases e5;
         simp add: timestamp_ok_def ParseTimestamp_def Let_def))
qed

lemma ParseTimestamp_rejected:
  assumes "\<not> timestamp_ok L flds"
  shows "fst (ParseTimestamp L d flds) =
           d\<lparr>RawTimestamp := RawTimestamp (fst (ParseTimestamp L d flds))\<rparr>"
proof (cases rule: ParseTimestamp_cases [where flds = flds and L = L])
  case short
  then show ?thesis by (simp add: ParseTimestamp_def)
next
  case (tokens v0 e0 v1 e1 v2 e2 v3 e3 v4 e4 v5 e5)
  show ?thesis
    by (insert tokens assms,
        (cases e0; cases e1; cases e2; cases e3; cases e4; cases e5;
         simp add: timestamp_ok_def ParseTimestamp_def Let_def))
qed

lemma ParseLine_accepted:
  assumes "timestamp_ok L flds"
  shows "ParseLine L flds =
     (OmitInvalidOrMissing (decoded L flds),
      if length flds < 47 then Some (IncompleteRecord flds) else None)"
proof -
  have "ParseLine_range L 0 flds (fst (ParseTimestamp L Data_zero flds)) = decoded L flds"
    by (rule Data.equality)
      (simp_all add: ParseLine_range_measurements ParseLine_range_RawTimestamp
        ParseLine_range_Timestamp ParseTimestamp_accepted [OF assms] decoded_def
        token_value_def Data_zero_def)
  then show ?thesis
    by (simp add: ParseLine_def ParseTimestamp_accepted [OF assms])
qed

lemma ParseLine_rejected:
  assumes "\<not> timestamp_ok L flds"
  shows "snd (ParseLine L flds) = snd (ParseTimestamp L Data_zero flds)"
    and "snd (ParseLine L flds) \<noteq> None"
    and "\<exists>r. fst (ParseLine L flds) = Data_zero\<lparr>RawTimestamp := r\<rparr>"
proof -
  from assms have e: "snd (ParseTimestamp L Data_zero flds) \<noteq> None"
    by (simp add: ParseTimestamp_error_iff)
  then have p: "ParseLine L flds = ParseTimestamp L Data_zero flds"
    by (simp add: ParseLine_def split_beta)
  show "snd (ParseLine L flds) = snd (ParseTimestamp L Data_zero flds)"
    by (simp add: p)
  show "snd (ParseLine L flds) \<noteq> None"
    using e by (simp add: p)
  show "\<exists>r. fst (ParseLine L flds) = Data_zero\<lparr>RawTimestamp := r\<rparr>"
    unfolding p using ParseTimestamp_rejected [OF assms, of Data_zero] by (rule exI)
qed

lemma ParseLine_error_iff:
  "snd (ParseLine L flds) = None \<longleftrightarrow> timestamp_ok L flds \<and> 47 \<le> length flds"
  using ParseLine_rejected(2) [of L flds] ParseLine_accepted [of L flds]
  by (cases "timestamp_ok L flds") auto

lemma ParseLine_rejected_eq:
  assumes "\<not> timestamp_ok L flds"
  shows "ParseLine L flds = ParseTimestamp L Data_zero flds"
  using assms by (simp add: ParseLine_def split_beta ParseTimestamp_error_iff)

lemma measurement_rejected:
  assumes "\<not> timestamp_ok L flds" and "(p, g) \<in> set mapped_positions"
  shows "g (fst (ParseLine L flds)) = float64_zero"
proof -
  from ParseLine_rejected(3) [OF assms(1)]
  obtain r where "fst (ParseLine L flds) = Data_zero\<lparr>RawTimestamp := r\<rparr>" ..
  with assms(2) show ?thesis
    by (auto simp: mapped_positions_def Data_zero_def)
qed

lemma measurement_accepted:
  assumes "timestamp_ok L flds" and "(p, g) \<in> set mapped_positions"
  shows "g (fst (ParseLine L flds)) = omit_Float64 (token_value L flds p)"
  using assms(2)
  by (auto simp: ParseLine_accepted [OF assms(1)] mapped_positions_def
      OmitInvalidOrMissing_def decoded_def)

lemma omit_Float64_zero: "omit_Float64 float64_zero = float64_zero"
  by (simp add: omit_Float64_def)

lemma timestamp_ok_ParseFloat:
  "timestamp_ok (L\<lparr>ParseFloat := pf\<rparr>) flds = timestamp_ok L flds"
  by (simp add: timestamp_ok_def)

lemma ParseTimestamp_error_ParseFloat:
  "snd (ParseTimestamp (L\<lparr>ParseFloat := pf\<rparr>) d flds) = snd (ParseTimestamp L d flds)"
proof (cases rule: ParseTimestamp_cases [where flds = flds and L = L])
  case short
  then show ?thesis by (simp add: ParseTimestamp_def)
next
  case (tokens v0 e0 v1 e1 v2 e2 v3 e3 v4 e4 v5 e5)
  show ?thesis
    by (insert tokens,
        (cases e0; cases e1; cases e2; cases e3; cases e4; cases e5;
         simp add: ParseTimestamp_def Let_def))
qed

lemma ParseLine_error_ParseFloat:
  "snd (ParseLine (L\<lparr>ParseFloat := pf\<rparr>) flds) = snd (ParseLine L flds)"
proof (cases "timestamp_ok L flds")
  case True
  then have "timestamp_ok (L\<lparr>ParseFloat := pf\<rparr>) flds"
    by (simp add: timestamp_ok_ParseFloat)
  with True show ?thesis
    by (simp add: ParseLine_accepted)
next
  case False
  then have "\<not> timestamp_ok (L\<lparr>ParseFloat := pf\<rparr>) flds"
    by (simp add: timestamp_ok_ParseFloat)
  with False show ?thesis
    by (simp add: ParseLine_rejected(1) ParseTimestamp_error_ParseFloat)
qed

lemma mapped_position_ge7:
  assumes "(p, g) \<in> set mapped_positions"
  shows "7 \<le> p"
  using assms by (auto simp: mapped_positions_def)

text \<open>
  C8. For every token sequence and every mapped position \<open>p\<close> with its measurement \<open>g\<close>:
  when the token at \<open>p\<close> fails to parse as a float, the decoded entry holds 0 in \<open>g\<close>.
  That failure causes no error: the error the decoder returns is the same whatever
  \<^verbatim>\<open>strconv.ParseFloat\<close> does on any token, and whether it is nil is the same for every
  other token put at \<open>p\<close>.
\<close>

theorem ParseLine_failed_float_is_zero:
  assumes "(p, g) \<in> set mapped_positions"
    and "p < length flds"
    and "snd (ParseFloat L (flds ! p)) \<noteq> None"
  shows "g (fst (ParseLine L flds)) = float64_zero \<and>
         (\<forall>pf. snd (ParseLine (L\<lparr>ParseFloat := pf\<rparr>) flds) = snd (ParseLine L flds)) \<and>
         (\<forall>t. (snd (ParseLine L (flds[p := t])) = None) = (snd (ParseLine L flds) = None))"
proof -
  have zero: "g (fst (ParseLine L flds)) = float64_zero"
  proof (cases "timestamp_ok L flds")
    case True
    from assms(3) have "parseFloat L (flds ! p) = float64_zero"
      by (auto simp: parseFloat_def split: prod.splits option.splits)
    with assms(2) show ?thesis
      by (simp add: measurement_accepted [OF True assms(1)] token_value_def omit_Float64_zero)
  next
    case False
    then show ?thesis
      by (rule measurement_rejected) (rule assms(1))
  qed
  have "timestamp_ok L (flds[p := t]) = timestamp_ok L flds" for t
    using mapped_position_ge7 [OF assms(1)] by (simp add: timestamp_ok_def)
  then have "(snd (ParseLine L (flds[p := t])) = None) = (snd (ParseLine L flds) = None)" for t
    by (simp add: ParseLine_error_iff)
  with zero show ?thesis
    by (simp add: ParseLine_error_ParseFloat)
qed

section \<open>The decoder reads the positions 0 to 46 only\<close>

lemma read_positions_nth:
  assumes "\<forall>p \<in> set read_positions. xs ! p = ys ! p"
  shows "xs ! 0 = ys ! 0" "xs ! 1 = ys ! 1" "xs ! 2 = ys ! 2" "xs ! 3 = ys ! 3"
    "xs ! 4 = ys ! 4" "xs ! 5 = ys ! 5" "xs ! 6 = ys ! 6"
    "\<And>p g. (p, g) \<in> set mapped_positions \<Longrightarrow> xs ! p = ys ! p"
proof -
  have "[0..<7] = [0, 1, 2, 3, 4, 5, 6 :: nat]"
    by (simp add: upt_rec)
  with assms show "xs ! 0 = ys ! 0" "xs ! 1 = ys ! 1" "xs ! 2 = ys ! 2" "xs ! 3 = ys ! 3"
    "xs ! 4 = ys ! 4" "xs ! 5 = ys ! 5" "xs ! 6 = ys ! 6"
    by (simp_all add: read_positions_def)
  show "xs ! p = ys ! p" if "(p, g) \<in> set mapped_positions" for p g
  proof -
    from that have "p \<in> set read_positions"
      by (force simp: read_positions_def)
    with assms show ?thesis by blast
  qed
qed

lemma ParseTimestamp_cong:
  assumes "7 \<le> length xs" and "7 \<le> length ys"
    and "\<forall>p \<in> set read_positions. xs ! p = ys ! p"
  shows "ParseTimestamp L d xs = ParseTimestamp L d ys"
proof -
  from assms(1,2) have len: "(length xs < 7) = False" "(length ys < 7) = False"
    by simp_all
  note eq = read_positions_nth(1-7) [OF assms(3)]
  show ?thesis
    unfolding ParseTimestamp_def len eq if_False by (rule refl)
qed

lemma decoded_cong:
  assumes "47 \<le> length xs" and "47 \<le> length ys"
    and "\<forall>p \<in> set read_positions. xs ! p = ys ! p"
  shows "decoded L xs = decoded L ys"
proof -
  have "token_value L xs p = token_value L ys p" if "(p, g) \<in> set mapped_positions" for p g
  proof -
    from that have "p < 47" by (auto simp: mapped_positions_def)
    with assms(1,2) read_positions_nth(8) [OF assms(3) that] show ?thesis
      by (simp add: token_value_def)
  qed
  then have "\<forall>(p, g) \<in> set mapped_positions. token_value L xs p = token_value L ys p"
    by blast
  then show ?thesis
    using read_positions_nth(1-7) [OF assms(3)]
    by (simp add: decoded_def mapped_positions_def)
qed

lemma ParseLine_cong:
  assumes "47 \<le> length xs" and "47 \<le> length ys"
    and "\<forall>p \<in> set read_positions. xs ! p = ys ! p"
  shows "ParseLine L xs = ParseLine L ys"
proof -
  from assms(1,2) have len: "7 \<le> length xs" "7 \<le> length ys" by simp_all
  have ok: "timestamp_ok L xs = timestamp_ok L ys"
    using len read_positions_nth(1-7) [OF assms(3)] by (simp add: timestamp_ok_def)
  show ?thesis
  proof (cases "timestamp_ok L xs")
    case True
    with ok assms(1,2) show ?thesis
      by (simp add: ParseLine_accepted decoded_cong [OF assms])
  next
    case False
    with ok show ?thesis
      by (simp add: ParseLine_rejected_eq ParseTimestamp_cong [OF len assms(3)])
  qed
qed

text \<open>
  C9, as the code has it. For every token sequence with at least 47 tokens, appending
  further tokens gives the same entry and the same error. The error is nil exactly
  when the six leading tokens are integers for \<^verbatim>\<open>strconv.Atoi\<close>; otherwise it is the
  error of \<^verbatim>\<open>strconv.Atoi\<close>, with or without the appended tokens.
\<close>

theorem ParseLine_ignores_trailing_tokens:
  assumes "47 \<le> length flds"
  shows "ParseLine L (flds @ extra) = ParseLine L flds \<and>
         (snd (ParseLine L flds) = None) = timestamp_ok L flds"
proof -
  have "\<forall>p \<in> set read_positions. (flds @ extra) ! p = flds ! p"
  proof
    fix p assume "p \<in> set read_positions"
    then have "p < 47"
      by (auto simp: read_positions_def mapped_positions_def)
    with assms show "(flds @ extra) ! p = flds ! p"
      by (simp add: nth_append)
  qed
  moreover from assms have "47 \<le> length (flds @ extra)" by simp
  ultimately have "ParseLine L (flds @ extra) = ParseLine L flds"
    using assms by (intro ParseLine_cong)
  with assms show ?thesis
    by (simp add: ParseLine_error_iff)
qed

lemma flag_positions_eq:
  "flag_positions = [9, 11, 13, 15, 17, 19, 21, 23, 25, 27, 29, 31, 33, 35, 37, 39, 41, 43, 45, 47]"
  by (simp add: flag_positions_def upt_rec)

lemma ParseLine_ignores_flags:
  assumes "47 \<le> length flds" and "p \<in> set flag_positions"
  shows "ParseLine L (flds[p := t]) = ParseLine L flds"
proof -
  from assms(2) have p: "odd p \<and> 9 \<le> p"
    by (auto simp: flag_positions_def)
  have "\<forall>q \<in> set read_positions. q < 8 \<or> even q"
    by (simp add: read_positions_def mapped_positions_def)
  with p have "\<forall>q \<in> set read_positions. p \<noteq> q"
    by auto
  then have "\<forall>q \<in> set read_positions. flds[p := t] ! q = flds ! q"
    by simp
  moreover from assms have "47 \<le> length (flds[p := t])" by simp
  ultimately show ?thesis
    using assms(1) by (intro ParseLine_cong)
qed

section \<open>The stream reader in closed form\<close>

lemma errors_of_Join: "errors_of (Join errs) = errs"
  by (simp add: errors_of_def Join_def)

lemma Join_eq_None: "Join errs = None \<longleftrightarrow> errs = []"
  by (simp add: Join_def)

lemma ReadData_line_eq:
  "ReadData_line L line st errs k =
     (st\<lparr>Entries := Entries st @ line_entries L line\<rparr>, errs @ line_errors L line k)"
  by (cases "ParseLine L (Fields L line)")
    (auto simp: ReadData_line_def line_entries_def line_errors_def Let_def)

lemma ReadData_loop_eq:
  "ReadData_loop L rs st errs n =
     (st\<lparr>Entries := Entries st @ loop_entries L rs\<rparr>, errs @ loop_errors L rs n)"
proof (induction rs arbitrary: st errs n)
  case Nil
  show ?case by simp
next
  case (Cons r rs)
  show ?case
  proof (cases r)
    case NoToken
    then show ?thesis by simp
  next
    case (Token line e)
    then show ?thesis
      by (cases "scanner_failed e") (simp_all add: ReadData_line_eq Cons.IH)
  qed
qed





lemma ParseHeader_flag: "snd (snd (ParseHeader L s h)) = (6 \<le> length h)"
  by (simp add: ParseHeader_def Let_def split_beta)

lemma ParseHeader_Entries: "Entries (fst (ParseHeader L s h)) = Entries s"
  by (simp add: ParseHeader_def Let_def split_beta)

lemma ParseHeader_short_error:
  assumes "length h < 6"
  shows "fst (snd (ParseHeader L s h)) \<noteq> None"
  using assms by (simp add: ParseHeader_def Let_def split_beta Join_def split: option.splits)

lemma header_passes_Token: "header_passes L (Token hdr e) = (6 \<le> length (Fields L hdr))"
  by (simp add: header_passes_def ParseHeader_flag)

text \<open>
  The reader after its two first calls of \<^verbatim>\<open>Scan\<close>: it returns what it has (the result
  on the two outcomes alone) when the header does not pass, and enters the loop with
  that station and those errors when it does.
\<close>

lemma ReadData_unfold:
  "ReadData L (a # b # rs) =
     (if header_passes L b
      then (case ReadData L [a, b] of
              (st, agg) \<Rightarrow>
                (case ReadData_loop L rs st (errors_of agg) 0 of
                   (st', errs') \<Rightarrow> (st', Join errs')))
      else ReadData L [a, b])"
proof (cases b)
  case NoToken
  then show ?thesis
    by (cases a) (simp_all add: ReadData_def header_passes_def errors_of_Join Let_def)
next
  case (Token hdr e)
  show ?thesis
  proof (cases a)
    case NoToken
    obtain st err ok where p: "ParseHeader L Station_zero (Fields L hdr) = (st, err, ok)"
      by (cases "ParseHeader L Station_zero (Fields L hdr)")
    with ParseHeader_flag [of L Station_zero "Fields L hdr"]
    have "ok = (6 \<le> length (Fields L hdr))" by simp
    with p Token NoToken show ?thesis
      by (simp add: ReadData_def header_passes_Token errors_of_Join Let_def)
  next
    case (Token name e')
    obtain st err ok where
      p: "ParseHeader L (Station_zero\<lparr>StationName := TrimSpace L name\<rparr>) (Fields L hdr)
            = (st, err, ok)"
      by (cases "ParseHeader L (Station_zero\<lparr>StationName := TrimSpace L name\<rparr>) (Fields L hdr)")
    with ParseHeader_flag [of L "Station_zero\<lparr>StationName := TrimSpace L name\<rparr>" "Fields L hdr"]
    have "ok = (6 \<le> length (Fields L hdr))" by simp
    with p Token \<open>b = Token hdr e\<close> show ?thesis
      by (simp add: ReadData_def header_passes_Token errors_of_Join Let_def)
  qed
qed

lemma ReadData_header_Entries: "Entries (fst (ReadData L [a, b])) = []"
proof (cases b)
  case NoToken
  then show ?thesis
    by (cases a) (simp_all add: ReadData_def Station_zero_def Let_def)
next
  case (Token hdr e)
  show ?thesis
  proof (cases a)
    case NoToken
    with Token ParseHeader_Entries [of L Station_zero "Fields L hdr"] show ?thesis
      by (simp add: ReadData_def Let_def split_beta Station_zero_def)
  next
    case (Token name e')
    with \<open>b = Token hdr e\<close>
      ParseHeader_Entries [of L "Station_zero\<lparr>StationName := TrimSpace L name\<rparr>" "Fields L hdr"]
    show ?thesis
      by (simp add: ReadData_def Let_def split_beta Station_zero_def)
  qed
qed



section \<open>Lines the reader skips\<close>



lemma accepted_line_outcome:
  assumes "29 \<le> length (Fields L line)" and "ParseLine L (Fields L line) = (d, None)"
  shows "line_entries L line = [d]" and "line_errors L line k = []"
  using assms by (simp_all add: line_entries_def line_errors_def)

lemma ReadData_loop_Token:
  assumes "scanner_failed e = None"
  shows "ReadData_loop L (Token line e # rs) st errs n =
           ReadData_loop L rs (st\<lparr>Entries := Entries st @ line_entries L line\<rparr>)
             (errs @ line_errors L line (n + 1)) (n + 1)"
  using assms by (simp add: ReadData_line_eq)



section \<open>The header decides whether the data lines are read\<close>

lemma ReadData_header_short:
  assumes "length (Fields L hdr) < 6"
  shows "snd (ReadData L [a, Token hdr e]) \<noteq> None"
proof (cases a)
  case NoToken
  obtain st err ok where p: "ParseHeader L Station_zero (Fields L hdr) = (st, err, ok)"
    by (cases "ParseHeader L Station_zero (Fields L hdr)")
  with ParseHeader_flag [of L Station_zero "Fields L hdr"]
    ParseHeader_short_error [OF assms, of L Station_zero]
  have "\<not> ok" and "err \<noteq> None" using assms by auto
  with p NoToken show ?thesis
    by (auto simp: ReadData_def Join_def Let_def)
next
  case (Token name e')
  obtain st err ok where
    p: "ParseHeader L (Station_zero\<lparr>StationName := TrimSpace L name\<rparr>) (Fields L hdr)
          = (st, err, ok)"
    by (cases "ParseHeader L (Station_zero\<lparr>StationName := TrimSpace L name\<rparr>) (Fields L hdr)")
  with ParseHeader_flag [of L "Station_zero\<lparr>StationName := TrimSpace L name\<rparr>" "Fields L hdr"]
    ParseHeader_short_error [OF assms, of L "Station_zero\<lparr>StationName := TrimSpace L name\<rparr>"]
  have "\<not> ok" and "err \<noteq> None" using assms by auto
  with p Token show ?thesis
    by (auto simp: ReadData_def Join_def Let_def)
qed

lemma ReadData_read_error:
  assumes "header_passes L b"
  shows "ReadData L [a, b, Token [] (Some (ReadError []))] \<noteq> ReadData L [a, b]"
proof -
  obtain st agg where r: "ReadData L [a, b] = (st, agg)"
    by (cases "ReadData L [a, b]")
  have "Join (errors_of agg @ [ReadError []]) \<noteq> agg"
    by (cases agg) (auto simp: Join_def errors_of_def split: error.splits)
  with assms r show ?thesis
    by (simp add: ReadData_unfold [of L a b "[Token [] (Some (ReadError []))]"]
        scanner_failed_def)
qed

text \<open>
  C2, as the code has it. The reader gives up after the header line, whatever lines
  follow, if and only if the header line splits into fewer than 6 fields; it then
  returns no entry and an error. For every header line with 6 or more fields the
  reader enters the loop over the data lines, with the station and the errors it has
  after the header (failures to parse a number of the header are among those errors).
\<close>

theorem ReadData_aborts_iff_header_short:
  "((\<forall>rs. ReadData L (a # Token hdr e # rs) = ReadData L [a, Token hdr e])
      \<longleftrightarrow> length (Fields L hdr) < 6) \<and>
   (length (Fields L hdr) < 6 \<longrightarrow>
      Entries (fst (ReadData L (a # Token hdr e # rs))) = [] \<and>
      snd (ReadData L (a # Token hdr e # rs)) \<noteq> None) \<and>
   (6 \<le> length (Fields L hdr) \<longrightarrow>
      ReadData L (a # Token hdr e # rs) =
        (case ReadData L [a, Token hdr e] of
           (st, agg) \<Rightarrow>
             (case ReadData_loop L rs st (errors_of agg) 0 of
                (st', errs') \<Rightarrow> (st', Join errs'))))"
proof (cases "length (Fields L hdr) < 6")
  case True
  then have stop: "ReadData L (a # Token hdr e # rs) = ReadData L [a, Token hdr e]" for rs
    by (simp add: ReadData_unfold [of L a "Token hdr e" rs] header_passes_Token)
  have "Entries (fst (ReadData L (a # Token hdr e # rs))) = []"
    unfolding stop [of rs] by (rule ReadData_header_Entries)
  moreover have "snd (ReadData L (a # Token hdr e # rs)) \<noteq> None"
    unfolding stop [of rs] by (rule ReadData_header_short [OF True])
  ultimately show ?thesis
    using True stop by auto
next
  case False
  then have pass: "header_passes L (Token hdr e)"
    by (simp add: header_passes_Token)
  from ReadData_read_error [OF pass, of a]
  have "\<not> (\<forall>rs. ReadData L (a # Token hdr e # rs) = ReadData L [a, Token hdr e])"
    by blast
  with False pass show ?thesis
    by (simp add: ReadData_unfold [of L a "Token hdr e" rs])
qed

section \<open>The reader on concrete lines\<close>

lemma golib_simps:
  "Atoi (golib other) = Atoi_int64"
  "ParseFloat (golib other) = ParseFloat_go other"
  "Date (golib other) = Date_go other"
  "Fields (golib other) s = (if is_ascii s then Fields_ascii s else Fields other s)"
  "TrimSpace (golib other) s = (if is_ascii s then TrimSpace_ascii s else TrimSpace other s)"
  by (simp_all add: golib_def)

lemma is_ascii_lines:
  "is_ascii test_line" "is_ascii partial_line" "is_ascii short_line" "is_ascii bad_year_line"
  "is_ascii test_header" "is_ascii short_header" "is_ascii test_name"
  by code_simp+

lemma Fields_ascii_lines:
  "Fields_ascii test_line = test_fields"
  "Fields_ascii partial_line = take 29 test_fields"
  "Fields_ascii short_line = [''2024'', ''48'', ''2'']"
  "Fields_ascii bad_year_line = test_fields[0 := ''20x4'']"
  "Fields_ascii test_header = [''36.624'', ''-116.019'', ''1007'', ''m'', ''version'', ''1'']"
  "Fields_ascii short_header = [''36.624'', ''-116.019'', ''1007'']"
  "TrimSpace_ascii test_name = ''Desert Rock''"
  by code_simp+

lemma Fields_lines:
  "Fields (golib other) test_line = test_fields"
  "Fields (golib other) partial_line = take 29 test_fields"
  "Fields (golib other) short_line = [''2024'', ''48'', ''2'']"
  "Fields (golib other) bad_year_line = test_fields[0 := ''20x4'']"
  "Fields (golib other) test_header = [''36.624'', ''-116.019'', ''1007'', ''m'', ''version'', ''1'']"
  "Fields (golib other) short_header = [''36.624'', ''-116.019'', ''1007'']"
  "TrimSpace (golib other) test_name = ''Desert Rock''"
  by (simp_all add: golib_simps is_ascii_lines Fields_ascii_lines)

lemma length_test_fields: "length test_fields = 48"
  by (simp add: test_fields_def)

lemma Atoi_tokens:
  "Atoi_int64 ''2024'' = (2024, None)" "Atoi_int64 ''48'' = (48, None)"
  "Atoi_int64 ''2'' = (2, None)" "Atoi_int64 ''17'' = (17, None)"
  "Atoi_int64 ''23'' = (23, None)" "Atoi_int64 ''59'' = (59, None)"
  "Atoi_int64 ''1007'' = (1007, None)" "Atoi_int64 ''1'' = (1, None)"
  "Atoi_int64 ''20x4'' = (0, Some (ErrSyntax ''Atoi'' ''20x4''))"
  by code_simp+

lemma plain_decimal_tokens:
    "plain_decimal ''23.983'' = Some (False, 23983, 3)"
    "plain_decimal ''74.37'' = Some (False, 7437, 2)"
    "plain_decimal ''136.8'' = Some (False, 1368, 1)"
    "plain_decimal ''28.3'' = Some (False, 283, 1)"
    "plain_decimal ''49.4'' = Some (False, 494, 1)"
    "plain_decimal ''126.7'' = Some (False, 1267, 1)"
    "plain_decimal ''320.1'' = Some (False, 3201, 1)"
    "plain_decimal ''289.68'' = Some (False, 28968, 2)"
    "plain_decimal ''289.43'' = Some (False, 28943, 2)"
    "plain_decimal ''396.8'' = Some (False, 3968, 1)"
    "plain_decimal ''288.55'' = Some (False, 28855, 2)"
    "plain_decimal ''288.61'' = Some (False, 28861, 2)"
    "plain_decimal ''9.8'' = Some (False, 98, 1)"
    "plain_decimal ''62.0'' = Some (False, 620, 1)"
    "plain_decimal ''111.7'' = Some (False, 1117, 1)"
    "plain_decimal ''-76.7'' = Some (True, 767, 1)"
    "plain_decimal ''35.0'' = Some (False, 350, 1)"
    "plain_decimal ''15.1'' = Some (False, 151, 1)"
    "plain_decimal ''29.0'' = Some (False, 290, 1)"
    "plain_decimal ''5.1'' = Some (False, 51, 1)"
    "plain_decimal ''106.8'' = Some (False, 1068, 1)"
    "plain_decimal ''903.6'' = Some (False, 9036, 1)"
    "plain_decimal ''36.624'' = Some (False, 36624, 3)"
    "plain_decimal ''-116.019'' = Some (True, 116019, 3)"
    "plain_decimal ''n/a'' = None"
  by code_simp+

lemma nearest_float64_tokens:
    "nearest_float64 False 23983 3 = (float64_const False 23983 3, False)"
    "nearest_float64 False 7437 2 = (float64_const False 7437 2, False)"
    "nearest_float64 False 1368 1 = (float64_const False 1368 1, False)"
    "nearest_float64 False 283 1 = (float64_const False 283 1, False)"
    "nearest_float64 False 494 1 = (float64_const False 494 1, False)"
    "nearest_float64 False 1267 1 = (float64_const False 1267 1, False)"
    "nearest_float64 False 3201 1 = (float64_const False 3201 1, False)"
    "nearest_float64 False 28968 2 = (float64_const False 28968 2, False)"
    "nearest_float64 False 28943 2 = (float64_const False 28943 2, False)"
    "nearest_float64 False 3968 1 = (float64_const False 3968 1, False)"
    "nearest_float64 False 28855 2 = (float64_const False 28855 2, False)"
    "nearest_float64 False 28861 2 = (float64_const False 28861 2, False)"
    "nearest_float64 False 98 1 = (float64_const False 98 1, False)"
    "nearest_float64 False 620 1 = (float64_const False 620 1, False)"
    "nearest_float64 False 1117 1 = (float64_const False 1117 1, False)"
    "nearest_float64 True 767 1 = (float64_const True 767 1, False)"
    "nearest_float64 False 350 1 = (float64_const False 350 1, False)"
    "nearest_float64 False 151 1 = (float64_const False 151 1, False)"
    "nearest_float64 False 290 1 = (float64_const False 290 1, False)"
    "nearest_float64 False 51 1 = (float64_const False 51 1, False)"
    "nearest_float64 False 1068 1 = (float64_const False 1068 1, False)"
    "nearest_float64 False 9036 1 = (float64_const False 9036 1, False)"
    "nearest_float64 False 36624 3 = (float64_const False 36624 3, False)"
    "nearest_float64 True 116019 3 = (float64_const True 116019 3, False)"
  by code_simp+

lemma no_number_token: "no_number ''n/a''"
  by code_simp

lemma ParseFloat_tokens:
    "ParseFloat_go other ''23.983'' = (float64_const False 23983 3, None)"
    "ParseFloat_go other ''74.37'' = (float64_const False 7437 2, None)"
    "ParseFloat_go other ''136.8'' = (float64_const False 1368 1, None)"
    "ParseFloat_go other ''28.3'' = (float64_const False 283 1, None)"
    "ParseFloat_go other ''49.4'' = (float64_const False 494 1, None)"
    "ParseFloat_go other ''126.7'' = (float64_const False 1267 1, None)"
    "ParseFloat_go other ''320.1'' = (float64_const False 3201 1, None)"
    "ParseFloat_go other ''289.68'' = (float64_const False 28968 2, None)"
    "ParseFloat_go other ''289.43'' = (float64_const False 28943 2, None)"
    "ParseFloat_go other ''396.8'' = (float64_const False 3968 1, None)"
    "ParseFloat_go other ''288.55'' = (float64_const False 28855 2, None)"
    "ParseFloat_go other ''288.61'' = (float64_const False 28861 2, None)"
    "ParseFloat_go other ''9.8'' = (float64_const False 98 1, None)"
    "ParseFloat_go other ''62.0'' = (float64_const False 620 1, None)"
    "ParseFloat_go other ''111.7'' = (float64_const False 1117 1, None)"
    "ParseFloat_go other ''-76.7'' = (float64_const True 767 1, None)"
    "ParseFloat_go other ''35.0'' = (float64_const False 350 1, None)"
    "ParseFloat_go other ''15.1'' = (float64_const False 151 1, None)"
    "ParseFloat_go other ''29.0'' = (float64_const False 290 1, None)"
    "ParseFloat_go other ''5.1'' = (float64_const False 51 1, None)"
    "ParseFloat_go other ''106.8'' = (float64_const False 1068 1, None)"
    "ParseFloat_go other ''903.6'' = (float64_const False 9036 1, None)"
    "ParseFloat_go other ''36.624'' = (float64_const False 36624 3, None)"
    "ParseFloat_go other ''-116.019'' = (float64_const True 116019 3, None)"
    "ParseFloat_go other ''n/a'' = (float64_zero, Some (ErrSyntax ''ParseFloat'' ''n/a''))"
  by (simp_all del: One_nat_def
      add: ParseFloat_go_def plain_decimal_tokens nearest_float64_tokens no_number_token)

lemma omit_tokens:
    "omit_Float64 (float64_const False 7437 2) = float64_const False 7437 2"
    "omit_Float64 (float64_const False 1368 1) = float64_const False 1368 1"
    "omit_Float64 (float64_const False 283 1) = float64_const False 283 1"
    "omit_Float64 (float64_const False 494 1) = float64_const False 494 1"
    "omit_Float64 (float64_const False 1267 1) = float64_const False 1267 1"
    "omit_Float64 (float64_const False 3201 1) = float64_const False 3201 1"
    "omit_Float64 (float64_const False 28968 2) = float64_const False 28968 2"
    "omit_Float64 (float64_const False 28943 2) = float64_const False 28943 2"
    "omit_Float64 (float64_const False 3968 1) = float64_const False 3968 1"
    "omit_Float64 (float64_const False 28855 2) = float64_const False 28855 2"
    "omit_Float64 (float64_const False 28861 2) = float64_const False 28861 2"
    "omit_Float64 (float64_const False 98 1) = float64_const False 98 1"
    "omit_Float64 (float64_const False 620 1) = float64_const False 620 1"
    "omit_Float64 (float64_const False 1117 1) = float64_const False 1117 1"
    "omit_Float64 (float64_const True 767 1) = float64_const True 767 1"
    "omit_Float64 (float64_const False 350 1) = float64_const False 350 1"
    "omit_Float64 (float64_const False 151 1) = float64_const False 151 1"
    "omit_Float64 (float64_const False 290 1) = float64_const False 290 1"
    "omit_Float64 (float64_const False 51 1) = float64_const False 51 1"
    "omit_Float64 (float64_const False 1068 1) = float64_const False 1068 1"
    "omit_Float64 (float64_const False 9036 1) = float64_const False 9036 1"
  by code_simp+

lemma float64_const_bits:
  "float64_const False 7437 2 = Float64 0x405297AE147AE148"
  "float64_const False 1368 1 = Float64 0x406119999999999A"
  "float64_const False 151 1 = Float64 0x402E333333333333"
  by code_simp+

lemma Date_test_line:
  "Date_go other 2024 2 17 23 59 0 0 = Date_utc 2024 2 17 23 59 0 0"
  "Date_utc 2024 2 17 23 59 0 0 = Time 63843811140 0 None"
  "omit_Time (Date_utc 2024 2 17 23 59 0 0) = Date_utc 2024 2 17 23 59 0 0"
  by (simp_all add: Date_go_def small_def Date_utc_def daysBefore_def isLeap_def
      omit_Time_def IsZero_def)

lemma nth_test_fields:
  "test_fields ! 0 = ''2024''" "test_fields ! 1 = ''48''" "test_fields ! 2 = ''2''"
  "test_fields ! 3 = ''17''" "test_fields ! 4 = ''23''" "test_fields ! 5 = ''59''"
  by (simp_all add: test_fields_def)

lemma timestamp_ok_test_fields: "timestamp_ok (golib other) test_fields"
  by (simp del: One_nat_def
      add: timestamp_ok_def length_test_fields nth_test_fields golib_simps Atoi_tokens)

lemma decoded_test_fields:
  "OmitInvalidOrMissing (decoded (golib other) test_fields) = test_entry"
  by (simp del: One_nat_def
      add: decoded_def token_value_def parseFloat_def test_fields_def golib_simps
        Atoi_tokens ParseFloat_tokens OmitInvalidOrMissing_def omit_tokens
        Date_test_line(1,3) omit_RawEntryTime_def test_entry_def)

lemma ParseLine_test_fields:
  "ParseLine (golib other) test_fields = (test_entry, None)"
  by (simp add: ParseLine_accepted [OF timestamp_ok_test_fields] decoded_test_fields
      length_test_fields)

lemma timestamp_ok_partial: "timestamp_ok (golib other) (take 29 test_fields)"
  using timestamp_ok_test_fields [of other]
  by (simp add: timestamp_ok_def length_test_fields)

lemma ParseLine_partial:
  "snd (ParseLine (golib other) (take 29 test_fields)) =
     Some (IncompleteRecord (take 29 test_fields))"
  by (simp add: ParseLine_accepted [OF timestamp_ok_partial] length_test_fields)

lemma ParseTimestamp_first_error:
  assumes "7 \<le> length flds" and "Atoi L (flds ! 0) = (v, Some err)"
  shows "snd (ParseTimestamp L d flds) = Some err"
  using assms by (simp add: ParseTimestamp_def)

lemma ParseLine_bad_year:
  assumes "48 \<le> length flds" and "flds ! 0 = ''20x4''"
  shows "snd (ParseLine (golib other) flds) = Some (ErrSyntax ''Atoi'' ''20x4'')"
proof -
  from assms have a: "Atoi (golib other) (flds ! 0) = (0, Some (ErrSyntax ''Atoi'' ''20x4''))"
    by (simp add: golib_simps Atoi_tokens)
  then have "\<not> timestamp_ok (golib other) flds"
    by (simp add: timestamp_ok_def)
  moreover from assms(1) have "7 \<le> length flds" by simp
  ultimately show ?thesis
    using ParseTimestamp_first_error [OF _ a, of Data_zero]
    by (simp add: ParseLine_rejected(1))
qed

lemma line_outcomes:
  "line_entries (golib other) test_line = [test_entry]"
  "line_errors (golib other) test_line k = []"
  "line_entries (golib other) short_line = []"
  "line_errors (golib other) short_line k = [IncompleteRecordOnLine k]"
  "line_entries (golib other) partial_line = []"
  "line_errors (golib other) partial_line k = [IncompleteRecord (take 29 test_fields)]"
  by (simp_all add: line_entries_def line_errors_def Fields_lines length_test_fields
      ParseLine_test_fields ParseLine_partial)

lemma ValidateStationName_DesertRock: "ValidateStationName ''Desert Rock''"
  by (simp add: ValidateStationName_def NameToStationID_def NameToStationID_entries_def
      StationName_defs)

lemma ReadData_test_header:
  "ReadData (golib other) [Token test_name None, Token test_header None] = (test_station, None)"
  by (simp del: One_nat_def
      add: ReadData_def ParseHeader_def Let_def Fields_lines golib_simps(1,2)
        ParseFloat_tokens Atoi_tokens ValidateStationName_DesertRock Join_def Station_zero_def
        test_station_def)



lemma scanner_failed_None: "scanner_failed None = None"
  by (simp add: scanner_failed_def)

section \<open>The properties at concrete lines\<close>

text \<open>
  C3, as the line is. The literal test line splits into 48 tokens. Decoding it gives no
  error and the entry of the positional mapping: the solar zenith angle is the constant
  74.37 (position 7), the downwelling solar the constant 136.8 (position 8), the
  temperature the constant 15.1 (position 38), each with its bit pattern, and the
  calendar timestamp is 2024-02-17T23:59:00Z in UTC, which is 63843811140 seconds after
  the start of year 1. The tokens at the positions 9, 11, ..., 47 are ignored: any
  other token there gives the same entry and no error.
\<close>

theorem ParseLine_test_line:
  "length (Fields (golib other) test_line) = 48 \<and>
   ParseLine (golib other) (Fields (golib other) test_line) = (test_entry, None) \<and>
   SolarZenithAngle test_entry = float64_const False 7437 2 \<and>
   float64_const False 7437 2 = Float64 0x405297AE147AE148 \<and>
   DownwellingSolar test_entry = float64_const False 1368 1 \<and>
   float64_const False 1368 1 = Float64 0x406119999999999A \<and>
   TemperatureC test_entry = float64_const False 151 1 \<and>
   float64_const False 151 1 = Float64 0x402E333333333333 \<and>
   Timestamp test_entry = Date_utc 2024 2 17 23 59 0 0 \<and>
   Date_utc 2024 2 17 23 59 0 0 = Time 63843811140 0 None \<and>
   (\<forall>p \<in> set flag_positions. \<forall>t.
      ParseLine (golib other) ((Fields (golib other) test_line)[p := t]) = (test_entry, None))"
proof -
  have flags: "ParseLine (golib other) (test_fields[p := t]) = (test_entry, None)"
    if "p \<in> set flag_positions" for p t
    using ParseLine_ignores_flags [of test_fields p "golib other" t] that
    by (simp add: length_test_fields ParseLine_test_fields)
  have "SolarZenithAngle test_entry = float64_const False 7437 2"
    "DownwellingSolar test_entry = float64_const False 1368 1"
    "TemperatureC test_entry = float64_const False 151 1"
    "Timestamp test_entry = Date_utc 2024 2 17 23 59 0 0"
    by (simp_all add: test_entry_def)
  with flags show ?thesis
    by (simp only: Fields_lines length_test_fields ParseLine_test_fields float64_const_bits
        Date_test_line(2)) simp
qed

theorem ParseLine_test_line_witness:
  "\<forall>other. 9 \<in> set flag_positions \<and>
     ParseLine (golib other) ((Fields (golib other) test_line)[9 := ''7'']) = (test_entry, None)"
proof (intro allI conjI)
  show f: "9 \<in> set flag_positions"
    by (simp add: flag_positions_eq)
  fix other
  from ParseLine_test_line [of other]
  have "\<forall>p \<in> set flag_positions. \<forall>t.
      ParseLine (golib other) ((Fields (golib other) test_line)[p := t]) = (test_entry, None)"
    by blast
  with f show "ParseLine (golib other) ((Fields (golib other) test_line)[9 := ''7''])
      = (test_entry, None)"
    by blast
qed

text \<open>C3 as stated fails in one word: the literal line has 48 tokens, not 55.\<close>

theorem test_line_tokens_counterexample:
  "\<forall>other. length (Fields (golib other) test_line) = 48 \<and>
     length (Fields (golib other) test_line) \<noteq> 55"
  by (simp add: Fields_lines length_test_fields)

text \<open>
  C8 at the test line with the token \<^verbatim>\<open>n/a\<close> for the temperature (position 38): the entry
  holds the temperature 0, and the decoder returns no error.
\<close>

theorem ParseLine_failed_float_is_zero_witness:
  "\<forall>other. (38, TemperatureC) \<in> set mapped_positions \<and>
     38 < length ((Fields (golib other) test_line)[38 := ''n/a'']) \<and>
     snd (ParseFloat (golib other) ((Fields (golib other) test_line)[38 := ''n/a''] ! 38)) \<noteq> None \<and>
     TemperatureC (fst (ParseLine (golib other) ((Fields (golib other) test_line)[38 := ''n/a''])))
       = float64_zero \<and>
     snd (ParseLine (golib other) ((Fields (golib other) test_line)[38 := ''n/a''])) = None"
proof
  fix other
  have h1: "(38, TemperatureC) \<in> set mapped_positions"
    by (simp add: mapped_positions_def)
  have h2: "38 < length (test_fields[38 := ''n/a''])"
    by (simp add: length_test_fields)
  then have n: "test_fields[38 := ''n/a''] ! 38 = ''n/a''"
    by simp
  have h3: "snd (ParseFloat (golib other) (test_fields[38 := ''n/a''] ! 38)) \<noteq> None"
    unfolding n by (simp add: golib_simps ParseFloat_tokens)
  note t = ParseLine_failed_float_is_zero [OF h1 h2 h3]
  have "(test_fields[38 := ''n/a''])[38 := ''15.1''] = test_fields"
    by (simp add: test_fields_def)
  with t have "snd (ParseLine (golib other) (test_fields[38 := ''n/a''])) = None"
    by (metis ParseLine_test_fields snd_conv)
  with t h1 h2 h3 show "(38, TemperatureC) \<in> set mapped_positions \<and>
     38 < length ((Fields (golib other) test_line)[38 := ''n/a'']) \<and>
     snd (ParseFloat (golib other) ((Fields (golib other) test_line)[38 := ''n/a''] ! 38)) \<noteq> None \<and>
     TemperatureC (fst (ParseLine (golib other) ((Fields (golib other) test_line)[38 := ''n/a''])))
       = float64_zero \<and>
     snd (ParseLine (golib other) ((Fields (golib other) test_line)[38 := ''n/a''])) = None"
    by (simp only: Fields_lines) simp
qed

text \<open>C9 at the test line with two tokens appended: the same entry and no error.\<close>

theorem ParseLine_ignores_trailing_tokens_witness:
  "\<forall>other. 47 \<le> length (Fields (golib other) test_line) \<and>
     ParseLine (golib other) (Fields (golib other) test_line @ [''0'', ''0'']) = (test_entry, None)"
proof
  fix other
  have h: "47 \<le> length test_fields"
    by (simp add: length_test_fields)
  from ParseLine_ignores_trailing_tokens [OF h, of "golib other" "[''0'', ''0'']"] h
  show "47 \<le> length (Fields (golib other) test_line) \<and>
     ParseLine (golib other) (Fields (golib other) test_line @ [''0'', ''0'']) = (test_entry, None)"
    by (simp add: Fields_lines ParseLine_test_fields)
qed

text \<open>
  C9 as stated fails where it says that the error is nil: the test line with the year
  \<^verbatim>\<open>20x4\<close> has 48 tokens, and the decoder returns the error of \<^verbatim>\<open>strconv.Atoi\<close> for it,
  with and without a token appended.
\<close>

theorem ParseLine_error_not_nil_counterexample:
  "\<forall>other. 47 \<le> length (Fields (golib other) bad_year_line) \<and>
     snd (ParseLine (golib other) (Fields (golib other) bad_year_line))
       = Some (ErrSyntax ''Atoi'' ''20x4'') \<and>
     snd (ParseLine (golib other) (Fields (golib other) bad_year_line @ [''0'']))
       = Some (ErrSyntax ''Atoi'' ''20x4'')"
proof
  fix other
  have "snd (ParseLine (golib other) (test_fields[0 := ''20x4'']))
          = Some (ErrSyntax ''Atoi'' ''20x4'')"
    by (rule ParseLine_bad_year) (simp_all add: length_test_fields)
  moreover have "snd (ParseLine (golib other) (test_fields[0 := ''20x4''] @ [''0'']))
          = Some (ErrSyntax ''Atoi'' ''20x4'')"
    by (rule ParseLine_bad_year) (simp_all add: length_test_fields nth_append)
  ultimately show "47 \<le> length (Fields (golib other) bad_year_line) \<and>
     snd (ParseLine (golib other) (Fields (golib other) bad_year_line))
       = Some (ErrSyntax ''Atoi'' ''20x4'') \<and>
     snd (ParseLine (golib other) (Fields (golib other) bad_year_line @ [''0'']))
       = Some (ErrSyntax ''Atoi'' ''20x4'')"
    by (simp add: Fields_lines length_test_fields)
qed




text \<open>
  C2 as amended, at a file of Desert Rock: after the header of six fields the test line
  is read and gives its entry; after the header of three fields it is not.
\<close>

theorem ReadData_aborts_iff_header_short_witness:
  "\<forall>other. 6 \<le> length (Fields (golib other) test_header) \<and>
     ReadData (golib other) [Token test_name None, Token test_header None, Token test_line None]
       = (test_station\<lparr>Entries := [test_entry]\<rparr>, None) \<and>
     length (Fields (golib other) short_header) < 6 \<and>
     Entries (fst (ReadData (golib other)
       [Token test_name None, Token short_header None, Token test_line None])) = []"
proof
  fix other
  have long: "6 \<le> length (Fields (golib other) test_header)"
    and short: "length (Fields (golib other) short_header) < 6"
    by (simp_all add: Fields_lines)
  note t1 = ReadData_aborts_iff_header_short
    [of "golib other" "Token test_name None" test_header None "[Token test_line None]"]
  note t2 = ReadData_aborts_iff_header_short
    [of "golib other" "Token test_name None" short_header None "[Token test_line None]"]
  from t1 long have
    "ReadData (golib other) [Token test_name None, Token test_header None, Token test_line None]
       = (test_station\<lparr>Entries := [test_entry]\<rparr>, None)"
    by (simp add: ReadData_test_header ReadData_loop_eq errors_of_def scanner_failed_None
        line_outcomes Join_def test_station_def)
  moreover from t2 short have "Entries (fst (ReadData (golib other)
       [Token test_name None, Token short_header None, Token test_line None])) = []"
    by blast
  ultimately show "6 \<le> length (Fields (golib other) test_header) \<and>
     ReadData (golib other) [Token test_name None, Token test_header None, Token test_line None]
       = (test_station\<lparr>Entries := [test_entry]\<rparr>, None) \<and>
     length (Fields (golib other) short_header) < 6 \<and>
     Entries (fst (ReadData (golib other)
       [Token test_name None, Token short_header None, Token test_line None])) = []"
    using long short by blast
qed

text \<open>
  C2 as stated fails: a header of three fields (latitude, longitude, elevation) makes
  the reader return what it has after the header, although the data line that follows
  is decoded without error: the file has no entry.
\<close>

theorem ReadData_three_field_header_counterexample:
  "\<forall>other. length (Fields (golib other) short_header) = 3 \<and>
     29 \<le> length (Fields (golib other) test_line) \<and>
     snd (ParseLine (golib other) (Fields (golib other) test_line)) = None \<and>
     ReadData (golib other) [Token test_name None, Token short_header None, Token test_line None]
       = ReadData (golib other) [Token test_name None, Token short_header None] \<and>
     Entries (fst (ReadData (golib other)
       [Token test_name None, Token short_header None, Token test_line None])) = []"
proof
  fix other
  have "\<not> header_passes (golib other) (Token short_header None)"
    by (simp add: header_passes_Token Fields_lines)
  then have stop:
    "ReadData (golib other) [Token test_name None, Token short_header None, Token test_line None]
       = ReadData (golib other) [Token test_name None, Token short_header None]"
    by (simp add: ReadData_unfold
        [of "golib other" "Token test_name None" "Token short_header None" "[Token test_line None]"])
  have "Entries (fst (ReadData (golib other)
       [Token test_name None, Token short_header None, Token test_line None])) = []"
    unfolding stop by (rule ReadData_header_Entries)
  with stop show "length (Fields (golib other) short_header) = 3 \<and>
     29 \<le> length (Fields (golib other) test_line) \<and>
     snd (ParseLine (golib other) (Fields (golib other) test_line)) = None \<and>
     ReadData (golib other) [Token test_name None, Token short_header None, Token test_line None]
       = ReadData (golib other) [Token test_name None, Token short_header None] \<and>
     Entries (fst (ReadData (golib other)
       [Token test_name None, Token short_header None, Token test_line None])) = []"
    by (simp add: Fields_lines length_test_fields ParseLine_test_fields)
qed

end
